theory Spec2Isabelle
  imports Complex_Main "HOL-Library.Word" "HOL-Library.AList" "HOL-Library.Sublist"
begin

unbundle bit_operations_syntax

section \<open>JavaScript values\<close>

text \<open>
  The strategy of \<^verbatim>\<open>telegram_strategy.ts\<close> receives its component bag as \<^verbatim>\<open>any\<close>-typed
  data, so the bag is modelled over untyped JavaScript values. A number is a real, or one of
  the three non-finite doubles; rounding of doubles is not modelled, and the arithmetic of
  the strategy itself (sums and quotients of a few decimal constants) is carried out in the
  reals. A string is a list of 8-bit characters, each standing for the UTF-16 code unit of
  the same value. An object is the list of its own enumerable properties in the order of
  \<^verbatim>\<open>Object.entries\<close>. Functions, symbols and accessor properties do not occur in the bags
  the signal sources build and are left out.
\<close>

datatype jsnum = NaN | PosInfinity | NegInfinity | Fin real

datatype jsval =
    JUndefined
  | JNull
  | JBool bool
  | JNum jsnum
  | JStr string
  | JArr "jsval list"
  | JObj "(string \<times> jsval) list"

type_synonym jsobject = "(string \<times> jsval) list"

text \<open>ToBoolean: what \<^verbatim>\<open>if (v)\<close>, \<^verbatim>\<open>v || w\<close>, \<^verbatim>\<open>v && w\<close> and \<^verbatim>\<open>!!v\<close> test.\<close>

fun truthy :: "jsval \<Rightarrow> bool" where
  "truthy JUndefined = False"
| "truthy JNull = False"
| "truthy (JBool b) = b"
| "truthy (JNum NaN) = False"
| "truthy (JNum (Fin r)) = (r \<noteq> 0)"
| "truthy (JNum _) = True"
| "truthy (JStr s) = (s \<noteq> [])"
| "truthy (JArr _) = True"
| "truthy (JObj _) = True"

text \<open>\<^verbatim>\<open>a || b\<close> on values.\<close>

definition js_or :: "jsval \<Rightarrow> jsval \<Rightarrow> jsval" where
  "js_or a b = (if truthy a then a else b)"

fun typeof :: "jsval \<Rightarrow> string" where
  "typeof JUndefined = ''undefined''"
| "typeof JNull = ''object''"
| "typeof (JBool _) = ''boolean''"
| "typeof (JNum _) = ''number''"
| "typeof (JStr _) = ''string''"
| "typeof (JArr _) = ''object''"
| "typeof (JObj _) = ''object''"

text \<open>\<^verbatim>\<open>k in o\<close> and \<^verbatim>\<open>o.k\<close> on an object given by its entries.\<close>

definition has_key :: "string \<Rightarrow> jsobject \<Rightarrow> bool" where
  "has_key k obj = (k \<in> set (map fst obj))"

definition get :: "jsobject \<Rightarrow> string \<Rightarrow> jsval" where
  "get obj k = (case map_of obj k of Some v \<Rightarrow> v | None \<Rightarrow> JUndefined)"

text \<open>
  \<^verbatim>\<open>v.k\<close> on an arbitrary value, for the property names this program reads (none of which
  is defined on a built-in prototype): a \<^verbatim>\<open>TypeError\<close> on \<^verbatim>\<open>null\<close> and \<^verbatim>\<open>undefined\<close>,
  the own property of an object, \<^verbatim>\<open>undefined\<close> on everything else.
\<close>

datatype js_error = TypeError

fun get_prop :: "jsval \<Rightarrow> string \<Rightarrow> js_error + jsval" where
  "get_prop JUndefined k = Inl TypeError"
| "get_prop JNull k = Inl TypeError"
| "get_prop (JObj fs) k = Inr (get fs k)"
| "get_prop _ k = Inr JUndefined"

text \<open>\<^verbatim>\<open>v?.k\<close>: optional chaining never raises.\<close>

fun opt_prop :: "jsval \<Rightarrow> string \<Rightarrow> jsval" where
  "opt_prop (JObj fs) k = get fs k"
| "opt_prop _ k = JUndefined"

text \<open>\<^verbatim>\<open>'k' in v\<close> for a value whose \<^verbatim>\<open>typeof\<close> is \<^verbatim>\<open>'object'\<close> and which is not \<^verbatim>\<open>null\<close>.\<close>

fun in_value :: "string \<Rightarrow> jsval \<Rightarrow> bool" where
  "in_value k (JObj fs) = has_key k fs"
| "in_value k _ = False"

subsection \<open>Strings\<close>

fun str_includes :: "string \<Rightarrow> string \<Rightarrow> bool" where
  "str_includes [] sub = (sub = [])"
| "str_includes (c # cs) sub = (prefix sub (c # cs) \<or> str_includes cs sub)"

definition startsWith :: "string \<Rightarrow> string \<Rightarrow> bool" where
  "startsWith s p = prefix p s"

definition lower_char :: "char \<Rightarrow> char" where
  "lower_char c =
     (case map_of (zip ''ABCDEFGHIJKLMNOPQRSTUVWXYZ'' ''abcdefghijklmnopqrstuvwxyz'') c of
        Some l \<Rightarrow> l
      | None \<Rightarrow> c)"

definition toLowerCase :: "string \<Rightarrow> string" where
  "toLowerCase s = map lower_char s"

fun join :: "string \<Rightarrow> string list \<Rightarrow> string" where
  "join sep [] = []"
| "join sep [x] = x"
| "join sep (x # y # ys) = x @ sep @ join sep (y # ys)"

definition hex_digit :: "nat \<Rightarrow> char" where
  "hex_digit d = ''0123456789abcdef'' ! d"

fun toString16 :: "nat \<Rightarrow> string" where
  "toString16 n = (if n < 16 then [hex_digit n] else toString16 (n div 16) @ [hex_digit (n mod 16)])"

text \<open>
  \<^verbatim>\<open>String(v)\<close> and template interpolation. The digits of a finite number are produced by
  the engine's shortest-round-trip algorithm, which is a parameter \<open>fmt\<close> of the model.
\<close>

fun Number_toString :: "(real \<Rightarrow> string) \<Rightarrow> jsnum \<Rightarrow> string" where
  "Number_toString fmt NaN = ''NaN''"
| "Number_toString fmt PosInfinity = ''Infinity''"
| "Number_toString fmt NegInfinity = ''-Infinity''"
| "Number_toString fmt (Fin r) = fmt r"

fun js_String :: "(real \<Rightarrow> string) \<Rightarrow> jsval \<Rightarrow> string" where
  "js_String fmt JUndefined = ''undefined''"
| "js_String fmt JNull = ''null''"
| "js_String fmt (JBool b) = (if b then ''true'' else ''false'')"
| "js_String fmt (JNum n) = Number_toString fmt n"
| "js_String fmt (JStr s) = s"
| "js_String fmt (JArr vs) =
     join '','' (map (\<lambda>v. if v = JNull \<or> v = JUndefined then [] else js_String fmt v) vs)"
| "js_String fmt (JObj fs) = ''[object Object]''"

text \<open>\<^verbatim>\<open>JSON.stringify\<close>; \<open>None\<close> is the \<^verbatim>\<open>undefined\<close> it returns for \<^verbatim>\<open>undefined\<close>.\<close>

definition json_escape :: "char \<Rightarrow> string" where
  "json_escape c =
     (let n = (of_char c :: nat) in
      if c = CHR 0x22 then [CHR 0x5C, CHR 0x22]
      else if c = CHR 0x5C then [CHR 0x5C, CHR 0x5C]
      else if n = 8 then [CHR 0x5C, CHR ''b'']
      else if n = 9 then [CHR 0x5C, CHR ''t'']
      else if n = 10 then [CHR 0x5C, CHR ''n'']
      else if n = 12 then [CHR 0x5C, CHR ''f'']
      else if n = 13 then [CHR 0x5C, CHR ''r'']
      else if n < 32 then [CHR 0x5C, CHR ''u'', CHR ''0'', CHR ''0'', hex_digit (n div 16), hex_digit (n mod 16)]
      else [c])"

definition json_quote :: "string \<Rightarrow> string" where
  "json_quote s = [CHR 0x22] @ concat (map json_escape s) @ [CHR 0x22]"

fun JSON_stringify :: "(real \<Rightarrow> string) \<Rightarrow> jsval \<Rightarrow> string option" where
  "JSON_stringify fmt JUndefined = None"
| "JSON_stringify fmt JNull = Some ''null''"
| "JSON_stringify fmt (JBool b) = Some (if b then ''true'' else ''false'')"
| "JSON_stringify fmt (JNum (Fin r)) = Some (fmt r)"
| "JSON_stringify fmt (JNum _) = Some ''null''"
| "JSON_stringify fmt (JStr s) = Some (json_quote s)"
| "JSON_stringify fmt (JArr vs) =
     Some (''['' @ join '',''
        (map (\<lambda>v. case JSON_stringify fmt v of None \<Rightarrow> ''null'' | Some t \<Rightarrow> t) vs) @ '']'')"
| "JSON_stringify fmt (JObj fs) =
     Some (''{'' @ join '',''
        (concat (map (\<lambda>kv. case JSON_stringify fmt (snd kv) of
                               None \<Rightarrow> []
                             | Some t \<Rightarrow> [json_quote (fst kv) @ '':'' @ t]) fs)) @ ''}'')"

section \<open>The adaptive strategy (\<^verbatim>\<open>telegram_strategy.ts\<close>)\<close>

text \<open>
  What the strategy reads from the browser: the user agent string and whether
  \<^verbatim>\<open>window.Telegram?.WebApp\<close> is defined.
\<close>

record environment =
  userAgent :: string
  Telegram_WebApp :: bool

text \<open>A case-insensitive regular expression that is a plain lower-case word.\<close>

definition regex_test_i :: "string \<Rightarrow> string \<Rightarrow> bool" where
  "regex_test_i word s = str_includes (toLowerCase s) word"

definition detectTelegramEnvironment :: "environment \<Rightarrow> bool" where
  "detectTelegramEnvironment env =
     (let ua = toLowerCase (userAgent env) in
      regex_test_i ''telegramwebview'' ua \<or> regex_test_i ''telegram'' ua \<or> Telegram_WebApp env)"

record TelegramContext =
  isTelegramWebView :: jsval
  telegramVersion :: jsval
  webViewType :: jsval
  hasHapticFeedback :: jsval
  hasBehavioralData :: bool
  networkQuality :: jsval

record EnhancedComponents =
  E_components :: jsobject
  E_weights :: "(string \<times> real) list"
  E_telegramContext :: TelegramContext

record EnhancedConfidence =
  score :: real
  telegramAdjustment :: bool
  behavioralFactor :: real
  webViewFactor :: real
  hapticFactor :: real
  networkFactor :: real
  stabilityScore :: real

definition baseWeights :: "(string \<times> real) list" where
  "baseWeights =
    [(''canvas'', 0.8), (''audio'', 0.6), (''fonts'', 0.7), (''webGlBasics'', 0.7),
     (''webGlExtensions'', 0.7),
     (''platform'', 1.0), (''hardwareConcurrency'', 1.0), (''deviceMemory'', 1.0),
     (''screenResolution'', 0.9), (''screenFrame'', 0.9), (''timezone'', 1.2),
     (''telegramWebApp'', 1.0), (''behavioral'', 1.0), (''webView'', 1.0), (''network'', 1.0),
     (''haptic'', 1.0),
     (''languages'', 1.1), (''colorDepth'', 1.0), (''touchSupport'', 1.1), (''vendor'', 0.9),
     (''vendorFlavors'', 0.9), (''osCpu'', 1.0)]"

definition telegramWeights :: "(string \<times> real) list" where
  "telegramWeights =
    [(''canvas'', 0.4), (''audio'', 0.3), (''fonts'', 0.5), (''plugins'', 0.1),
     (''telegramWebApp'', 2.5), (''webView'', 2.0), (''behavioral'', 2.2), (''haptic'', 1.8),
     (''network'', 1.6),
     (''platform'', 1.3), (''vendor'', 1.2), (''vendorFlavors'', 1.5), (''timezone'', 1.4),
     (''languages'', 1.3),
     (''touchSupport'', 1.4), (''colorGamut'', 1.1), (''reducedMotion'', 1.1),
     (''hardwareConcurrency'', 1.2), (''deviceMemory'', 1.2), (''screenResolution'', 1.1)]"

text \<open>
  \<^verbatim>\<open>Object.assign(target, source)\<close>: each property of the source, in order, is written to
  the target; an existing key keeps its place and takes the new value, a new key is appended.
\<close>

definition Object_assign :: "('k \<times> 'v) list \<Rightarrow> ('k \<times> 'v) list \<Rightarrow> ('k \<times> 'v) list" where
  "Object_assign target source = fold (\<lambda>(k, v). AList.update k v) source target"

definition extractTelegramContext :: "jsobject \<Rightarrow> TelegramContext" where
  "extractTelegramContext components =
    (let telegramData = (if has_key ''telegramWebApp'' components then get components ''telegramWebApp'' else JNull);
         webViewData = (if has_key ''webView'' components then get components ''webView'' else JNull);
         hapticData = (if has_key ''haptic'' components then get components ''haptic'' else JNull);
         behavioralData = (if has_key ''behavioral'' components then get components ''behavioral'' else JNull);
         networkData = (if has_key ''network'' components then get components ''network'' else JNull)
     in \<lparr> isTelegramWebView = js_or (opt_prop telegramData ''isTelegramWebView'') (JBool False),
          telegramVersion = js_or (opt_prop telegramData ''telegramVersion'') JNull,
          webViewType = js_or (opt_prop webViewData ''webViewType'') (JStr ''unknown''),
          hasHapticFeedback = js_or (opt_prop hapticData ''isAvailable'') (JBool False),
          hasBehavioralData =
            truthy (js_or (opt_prop behavioralData ''touchPatterns'')
                          (opt_prop behavioralData ''motionSignature'')),
          networkQuality =
            js_or (opt_prop (opt_prop networkData ''networkPerformance'') ''networkQuality'')
                  (JStr ''unknown'') \<rparr>)"

definition adjustSourceWeights :: "environment \<Rightarrow> jsobject \<Rightarrow> EnhancedComponents" where
  "adjustSourceWeights env components =
    (let isTelegram = detectTelegramEnvironment env;
         weights = (if isTelegram then Object_assign baseWeights telegramWeights else baseWeights);
         telegramContext = extractTelegramContext components
     in \<lparr> E_components = components, E_weights = weights, E_telegramContext = telegramContext \<rparr>)"

subsection \<open>Confidence\<close>

text \<open>
  The running pair \<^verbatim>\<open>(stabilityFactors, totalFactors)\<close> of \<^verbatim>\<open>calculateStabilityScore\<close>
  after its five blocks.
\<close>

definition stabilityCounts :: "jsobject \<Rightarrow> TelegramContext \<Rightarrow> real \<times> real" where
  "stabilityCounts components context =
    (let (s0, t0) = (0, 0);
         (s1, t1) = (if has_key ''platform'' components then (s0 + 1, t0 + 1) else (s0, t0));
         (s2, t2) = (if has_key ''timezone'' components then (s1 + 1, t1 + 1) else (s1, t1));
         (s3, t3) = (if has_key ''hardwareConcurrency'' components \<and> has_key ''deviceMemory'' components
                     then (s2 + 1, t2 + 1) else (s2, t2));
         (s4, t4) = (if has_key ''languages'' components then (s3 + 1, t3 + 1) else (s3, t3))
     in if truthy (isTelegramWebView context) then
          (let s5 = (if truthy (telegramVersion context) then s4 + 1 else s4);
               s6 = (if truthy (hasHapticFeedback context) then s5 + 0.5 else s5)
           in (s6, t4 + 1.5))
        else (s4, t4))"

definition calculateStabilityScore :: "jsobject \<Rightarrow> TelegramContext \<Rightarrow> real" where
  "calculateStabilityScore components context =
    (let (stabilityFactors, totalFactors) = stabilityCounts components context
     in if totalFactors > 0 then stabilityFactors / totalFactors else 0.5)"

text \<open>The five blocks of \<^verbatim>\<open>getEnhancedConfidenceScore\<close> before the final calculation.\<close>

definition platformAdjustment :: "jsobject \<Rightarrow> real \<Rightarrow> real" where
  "platformAdjustment components baseScore =
    (if has_key ''platform'' components \<and> truthy (get components ''platform'') then
       (let platformComponent = get components ''platform'';
            platform = js_or (opt_prop platformComponent ''value'') platformComponent
        in case platform of
             JStr p \<Rightarrow>
               if str_includes p ''iPhone'' \<or> str_includes p ''iPad'' then baseScore + 0.1
               else if str_includes p ''Android'' then baseScore + 0.05
               else baseScore
           | _ \<Rightarrow> baseScore)
     else baseScore)"

definition behavioralFactorOf :: "jsobject \<Rightarrow> js_error + real" where
  "behavioralFactorOf components =
    (if has_key ''behavioral'' components \<and> truthy (get components ''behavioral'') then
       (let behavioral = get components ''behavioral'' in
        case get_prop behavioral ''touchPatterns'' of
          Inl e \<Rightarrow> Inl e
        | Inr touchPatterns \<Rightarrow>
            if truthy touchPatterns then Inr 0.2
            else (case get_prop behavioral ''motionSignature'' of
                    Inl e \<Rightarrow> Inl e
                  | Inr motionSignature \<Rightarrow> Inr (if truthy motionSignature then 0.2 else 0)))
     else Inr 0)"

definition webViewFactorOf :: "jsobject \<Rightarrow> js_error + real" where
  "webViewFactorOf components =
    (if has_key ''webView'' components \<and> truthy (get components ''webView'') then
       (let webView = get components ''webView'' in
        case get_prop webView ''isWebView'' of
          Inl e \<Rightarrow> Inl e
        | Inr isWebView \<Rightarrow>
            if \<not> truthy isWebView then Inr 0
            else (case get_prop webView ''webViewType'' of
                    Inl e \<Rightarrow> Inl e
                  | Inr t \<Rightarrow> Inr (if t = JStr ''telegram'' then 0.25 else 0)))
     else Inr 0)"

definition hapticFactorOf :: "jsobject \<Rightarrow> js_error + real" where
  "hapticFactorOf components =
    (if has_key ''haptic'' components \<and> truthy (get components ''haptic'') then
       (let haptic = get components ''haptic'' in
        case get_prop haptic ''isAvailable'' of
          Inl e \<Rightarrow> Inl e
        | Inr isAvailable \<Rightarrow>
            if \<not> truthy isAvailable then Inr 0
            else (case get_prop haptic ''isTelegramHaptic'' of
                    Inl e \<Rightarrow> Inl e
                  | Inr isTelegramHaptic \<Rightarrow> Inr (if truthy isTelegramHaptic then 0.15 else 0)))
     else Inr 0)"

definition networkFactorOf :: "jsobject \<Rightarrow> js_error + real" where
  "networkFactorOf components =
    (if has_key ''network'' components \<and> truthy (get components ''network'') then
       (let network = get components ''network'' in
        case get_prop network ''connectionInfo'' of
          Inl e \<Rightarrow> Inl e
        | Inr connectionInfo \<Rightarrow>
            if \<not> truthy connectionInfo then Inr 0
            else (case get_prop network ''ipBasedEntropy'' of
                    Inl e \<Rightarrow> Inl e
                  | Inr ipBasedEntropy \<Rightarrow> Inr (if truthy ipBasedEntropy then 0.1 else 0)))
     else Inr 0)"

definition finalScoreOf ::
  "bool \<Rightarrow> TelegramContext \<Rightarrow> real \<Rightarrow> real \<Rightarrow> real \<Rightarrow> real \<Rightarrow> real \<Rightarrow> real" where
  "finalScoreOf isTelegram context baseScore bF wF hF nF =
    (if isTelegram then
       (let finalScore = min 0.9 (baseScore + bF + wF + hF + nF)
        in if hasBehavioralData context \<and> truthy (hasHapticFeedback context)
           then finalScore + 0.05 else finalScore)
     else min 0.85 (baseScore + (bF + nF) * 0.5))"

definition getEnhancedConfidenceScore :: "environment \<Rightarrow> jsobject \<Rightarrow> js_error + EnhancedConfidence" where
  "getEnhancedConfidenceScore env components =
    (let isTelegram = detectTelegramEnvironment env;
         context = extractTelegramContext components;
         baseScore = platformAdjustment components 0.5
     in case behavioralFactorOf components of Inl e \<Rightarrow> Inl e | Inr bF \<Rightarrow>
        case webViewFactorOf components of Inl e \<Rightarrow> Inl e | Inr wF \<Rightarrow>
        case hapticFactorOf components of Inl e \<Rightarrow> Inl e | Inr hF \<Rightarrow>
        case networkFactorOf components of Inl e \<Rightarrow> Inl e | Inr nF \<Rightarrow>
          (let stabilityScore = calculateStabilityScore components context;
               finalScore = finalScoreOf isTelegram context baseScore bF wF hF nF
           in Inr \<lparr> score = max 0.1 (min 0.9 finalScore),
                    telegramAdjustment = isTelegram,
                    behavioralFactor = bF,
                    webViewFactor = wF,
                    hapticFactor = hF,
                    networkFactor = nF,
                    stabilityScore = stabilityScore \<rparr>))"

subsection \<open>The weighted digest\<close>

definition Math_round :: "real \<Rightarrow> int" where
  "Math_round x = \<lfloor>x + 1 / 2\<rfloor>"

text \<open>
  The loop of \<^verbatim>\<open>simpleHash\<close> over the code units of the string. \<^verbatim>\<open>hash << 5\<close> and
  \<^verbatim>\<open>hash & hash\<close> reduce to 32 bits, and the subtraction and addition between them are
  exact on doubles of this size, so each round is arithmetic modulo \<open>2 ^ 32\<close>.
\<close>

fun hash_loop :: "32 word \<Rightarrow> string \<Rightarrow> 32 word" where
  "hash_loop hash [] = hash"
| "hash_loop hash (c # str) = hash_loop ((push_bit 5 hash - hash) + of_nat (of_char c)) str"

definition simpleHash :: "string \<Rightarrow> string" where
  "simpleHash str = toString16 (nat \<bar>sint (hash_loop 0 str)\<bar>)"

text \<open>The textual value of one component.\<close>

definition componentValue :: "(real \<Rightarrow> string) \<Rightarrow> jsval \<Rightarrow> string" where
  "componentValue fmt component =
    (if typeof component = ''object'' \<and> component \<noteq> JNull then
       if in_value ''value'' component then js_String fmt (opt_prop component ''value'')
       else (case JSON_stringify fmt component of Some text \<Rightarrow> text | None \<Rightarrow> ''undefined'')
     else js_String fmt component)"

text \<open>The inner loop: \<^verbatim>\<open>for (let i = 0; i < repetitions; i++) weightedInputs.push(token)\<close>.\<close>

function push_repeated :: "int \<Rightarrow> int \<Rightarrow> string \<Rightarrow> string list \<Rightarrow> string list" where
  "push_repeated i repetitions token weightedInputs =
    (if i < repetitions then push_repeated (i + 1) repetitions token (weightedInputs @ [token])
     else weightedInputs)"
  by pat_completeness auto
termination
  by (relation "measure (\<lambda>(i, repetitions, token, weightedInputs). nat (repetitions - i))") auto

declare push_repeated.simps [simp del]

text \<open>
  The table is a plain object, so \<^verbatim>\<open>weights[key]\<close> finds, besides the table's own
  entries, the members every object inherits from \<^verbatim>\<open>Object.prototype\<close>: functions, and
  for \<^verbatim>\<open>__proto__\<close> the prototype object itself.
\<close>

definition Object_prototype_names :: "string list" where
  "Object_prototype_names =
    [''constructor'', ''__defineGetter__'', ''__defineSetter__'', ''hasOwnProperty'',
     ''__lookupGetter__'', ''__lookupSetter__'', ''isPrototypeOf'', ''propertyIsEnumerable'',
     ''toString'', ''valueOf'', ''__proto__'', ''toLocaleString'']"

text \<open>
  The value of \<^verbatim>\<open>weights[key] || 1.0\<close>: a number, or an inherited member (truthy, and not
  a number).
\<close>

datatype weight_value = Number real | Inherited

definition weightOf :: "(string \<times> real) list \<Rightarrow> string \<Rightarrow> weight_value" where
  "weightOf weights key =
    (case map_of weights key of
       Some w \<Rightarrow> if w \<noteq> 0 then Number w else Number 1.0
     | None \<Rightarrow> if key \<in> set Object_prototype_names then Inherited else Number 1.0)"

text \<open>
  \<^verbatim>\<open>Math.max(1, Math.round(weight * 10))\<close>. The product of an inherited member and 10 is
  \<^verbatim>\<open>NaN\<close>, and so are its rounding and the maximum; \<open>None\<close> is that \<^verbatim>\<open>NaN\<close>.
\<close>

definition repetitionsOf :: "weight_value \<Rightarrow> int option" where
  "repetitionsOf weight =
    (case weight of Number w \<Rightarrow> Some (max 1 (Math_round (w * 10))) | Inherited \<Rightarrow> None)"

text \<open>
  The inner loop from \<^verbatim>\<open>i = 0\<close>; the test \<^verbatim>\<open>i < NaN\<close> is false, so the body never runs
  when the count is \<^verbatim>\<open>NaN\<close>.
\<close>

definition push_loop :: "int option \<Rightarrow> string \<Rightarrow> string list \<Rightarrow> string list" where
  "push_loop repetitions token weightedInputs =
    (case repetitions of
       Some n \<Rightarrow> push_repeated 0 n token weightedInputs
     | None \<Rightarrow> weightedInputs)"

text \<open>The outer loop over \<^verbatim>\<open>Object.entries(components)\<close>.\<close>

fun component_loop ::
  "(real \<Rightarrow> string) \<Rightarrow> (string \<times> real) list \<Rightarrow> jsobject \<Rightarrow> string list \<Rightarrow> string list" where
  "component_loop fmt weights [] weightedInputs = weightedInputs"
| "component_loop fmt weights ((key, component) # entries) weightedInputs =
    (if startsWith key ''_'' then component_loop fmt weights entries weightedInputs
     else
       (let weight = weightOf weights key;
            val = componentValue fmt component;
            repetitions = repetitionsOf weight
        in component_loop fmt weights entries
             (push_loop repetitions (key @ '':'' @ val) weightedInputs)))"

text \<open>
  The context tokens; \<^verbatim>\<open>enhancedComponents._telegramContext\<close> is an object, hence truthy.
\<close>

definition contextInputs :: "(real \<Rightarrow> string) \<Rightarrow> TelegramContext \<Rightarrow> string list" where
  "contextInputs fmt context =
    [''telegram:'' @ js_String fmt (isTelegramWebView context),
     ''version:'' @ js_String fmt (js_or (telegramVersion context) (JStr ''unknown'')),
     ''webview:'' @ js_String fmt (webViewType context)]"

definition weightedInputsOf :: "(real \<Rightarrow> string) \<Rightarrow> environment \<Rightarrow> jsobject \<Rightarrow> string list" where
  "weightedInputsOf fmt env components =
    (let enhancedComponents = adjustSourceWeights env components;
         weights = E_weights enhancedComponents;
         weightedInputs = component_loop fmt weights components []
     in weightedInputs @ contextInputs fmt (E_telegramContext enhancedComponents))"

definition generateTelegramSpecificFingerprint ::
  "(real \<Rightarrow> string) \<Rightarrow> environment \<Rightarrow> jsobject \<Rightarrow> string" where
  "generateTelegramSpecificFingerprint fmt env components =
    simpleHash (join ''|'' (weightedInputsOf fmt env components))"

section \<open>The behavioural collector\<close>

text \<open>
  The collector of the behavioural source: the raw sample window, the listeners, and the
  reduction of a window to five feature groups. Numbers are reals; the two placeholder
  features that call \<^verbatim>\<open>Math.random()\<close> take the drawn value as an argument.
\<close>

record Touch =
  force :: real
  radiusX :: real
  radiusY :: real
  clientX :: real
  clientY :: real

record TouchEvent =
  type :: string
  timeStamp :: real
  touches :: "Touch list"

record ScrollSample =
  timestamp :: real
  scrollY :: real
  scrollX :: real

text \<open>\<^verbatim>\<open>accelerationIncludingGravity\<close>: each axis is a number or \<^verbatim>\<open>null\<close>.\<close>

record Acceleration =
  accX :: "real option"
  accY :: "real option"
  accZ :: "real option"

record MotionSample =
  motionTimestamp :: real
  acceleration :: Acceleration

record BehavioralCollector =
  touchData :: "TouchEvent list"
  scrollData :: "ScrollSample list"
  motionData :: "MotionSample list"
  isActive :: bool
  listening :: bool

record TouchPattern =
  averagePressure :: real
  averageArea :: real
  averageVelocity :: real
  touchDuration :: real
  touchFrequency :: real
  gestureComplexity :: real
  touchPointVariation :: real

record ScrollBehavior =
  averageScrollSpeed :: real
  scrollAcceleration :: real
  scrollDeceleration :: real
  momentumPattern :: real
  elasticBounceSignature :: real
  scrollDirection :: string
  scrollConsistency :: real

record TimingFingerprint =
  averageReactionTime :: real
  keyboardInputTiming :: real
  scrollToTouchDelay :: real
  focusBlurPattern :: real
  interactionInterval :: real
  timingVariability :: real

record InteractionRhythm =
  tapRhythm :: real
  scrollRhythm :: real
  pausePatterns :: "real list"
  interactionSequence :: string
  rhythmConsistency :: real

record MotionSignature =
  handTremor :: real
  scrollStability :: real
  touchPrecision :: real
  gestureFlowness :: real
  movementEntropy :: real

record BehavioralFingerprint =
  touchPatterns :: "TouchPattern option"
  scrollBehavior :: "ScrollBehavior option"
  timingFingerprint :: "TimingFingerprint option"
  interactionRhythm :: "InteractionRhythm option"
  motionSignature :: "MotionSignature option"
  isCollecting :: bool

definition collectionDuration :: real where
  "collectionDuration = 3000"

subsection \<open>Listeners\<close>

text \<open>\<^verbatim>\<open>new BehavioralCollector()\<close>, and \<^verbatim>\<open>start()\<close> up to the point where it waits.\<close>

definition new_BehavioralCollector :: BehavioralCollector where
  "new_BehavioralCollector =
    \<lparr> touchData = [], scrollData = [], motionData = [], isActive = False, listening = False \<rparr>"

definition setupEventListeners :: "BehavioralCollector \<Rightarrow> BehavioralCollector" where
  "setupEventListeners c = c\<lparr> listening := True \<rparr>"

definition start :: "BehavioralCollector \<Rightarrow> BehavioralCollector" where
  "start c = setupEventListeners (c\<lparr> isActive := True \<rparr>)"

definition stop :: "BehavioralCollector \<Rightarrow> BehavioralCollector" where
  "stop c = (c\<lparr> isActive := False \<rparr>)\<lparr> listening := False \<rparr>"

text \<open>
  What the browser may dispatch: an event of any type name at the document that carries
  touch lists, a scroll event (with the clock and the scroll offsets read by the handler),
  and a device motion event (with the clock and its \<^verbatim>\<open>accelerationIncludingGravity\<close>).
\<close>

datatype dom_event =
    DocumentEvent TouchEvent
  | Scroll real real real
  | DeviceMotion real "Acceleration option"

definition touchListenerTypes :: "string list" where
  "touchListenerTypes = [''touchstart'', ''touchmove'', ''touchend'']"

definition touchHandler :: "BehavioralCollector \<Rightarrow> TouchEvent \<Rightarrow> BehavioralCollector" where
  "touchHandler c event = (if isActive c then c\<lparr> touchData := touchData c @ [event] \<rparr> else c)"

definition scrollHandler :: "BehavioralCollector \<Rightarrow> real \<Rightarrow> real \<Rightarrow> real \<Rightarrow> BehavioralCollector" where
  "scrollHandler c now y x =
    (if isActive c
     then c\<lparr> scrollData := scrollData c @ [\<lparr> timestamp = now, scrollY = y, scrollX = x \<rparr>] \<rparr>
     else c)"

definition motionHandler ::
  "BehavioralCollector \<Rightarrow> real \<Rightarrow> Acceleration option \<Rightarrow> BehavioralCollector" where
  "motionHandler c now accelerationIncludingGravity =
    (case accelerationIncludingGravity of
       Some a \<Rightarrow>
         if isActive c
         then c\<lparr> motionData := motionData c @ [\<lparr> motionTimestamp = now, acceleration = a \<rparr>] \<rparr>
         else c
     | None \<Rightarrow> c)"

fun dispatch :: "BehavioralCollector \<Rightarrow> dom_event \<Rightarrow> BehavioralCollector" where
  "dispatch c (DocumentEvent event) =
    (if listening c \<and> type event \<in> set touchListenerTypes then touchHandler c event else c)"
| "dispatch c (Scroll now y x) = (if listening c then scrollHandler c now y x else c)"
| "dispatch c (DeviceMotion now a) = (if listening c then motionHandler c now a else c)"

subsection \<open>Reducing a window to features\<close>

text \<open>\<^verbatim>\<open>xs.reduce((a, b) => a + b, 0) / xs.length\<close>, used where the list is not empty.\<close>

definition average :: "real list \<Rightarrow> real" where
  "average xs = sum_list xs / real (length xs)"

text \<open>The pairs \<^verbatim>\<open>(xs[i - 1], xs[i])\<close> for \<^verbatim>\<open>i = 1 .. xs.length - 1\<close>.\<close>

definition consecutive :: "'a list \<Rightarrow> ('a \<times> 'a) list" where
  "consecutive xs = zip xs (tl xs)"

definition Math_max_list :: "real list \<Rightarrow> real" where
  "Math_max_list xs = foldl max (hd xs) (tl xs)"

definition Math_min_list :: "real list \<Rightarrow> real" where
  "Math_min_list xs = foldl min (hd xs) (tl xs)"

definition Math_atan2 :: "real \<Rightarrow> real \<Rightarrow> real" where
  "Math_atan2 y x =
    (if x > 0 then arctan (y / x)
     else if x < 0 then (if y \<ge> 0 then arctan (y / x) + pi else arctan (y / x) - pi)
     else if y > 0 then pi / 2 else if y < 0 then - pi / 2 else 0)"

definition or0 :: "real option \<Rightarrow> real" where
  "or0 v = (case v of Some r \<Rightarrow> r | None \<Rightarrow> 0)"

definition calculateGestureComplexity :: "BehavioralCollector \<Rightarrow> real" where
  "calculateGestureComplexity c = min (real (length (touchData c)) / 10) 1"

definition calculateTouchPointVariation :: "BehavioralCollector \<Rightarrow> real" where
  "calculateTouchPointVariation c =
    (let positions = concat (map (\<lambda>event. map (\<lambda>touch. (clientX touch, clientY touch)) (touches event))
                                 (touchData c))
     in if length positions < 2 then 0
        else
          (let avgX = sum_list (map fst positions) / real (length positions);
               avgY = sum_list (map snd positions) / real (length positions);
               variations = map (\<lambda>pos. sqrt ((fst pos - avgX)\<^sup>2 + (snd pos - avgY)\<^sup>2)) positions
           in sum_list variations / real (length variations)))"

definition calculateScrollDeceleration :: "real list \<Rightarrow> real" where
  "calculateScrollDeceleration speeds =
    (if length speeds < 3 then 0
     else
       (let n = length speeds div 3;
            lastThird = drop (length speeds - n) speeds;
            firstThird = take n speeds;
            avgLast = average lastThird;
            avgFirst = average firstThird
        in max 0 (avgFirst - avgLast)))"

definition calculateMomentumPattern :: "real list \<Rightarrow> real" where
  "calculateMomentumPattern speeds =
    (if speeds = [] then 0
     else
       (let maxSpeed = Math_max_list speeds;
            avgSpeed = average speeds
        in if maxSpeed > 0 then avgSpeed / maxSpeed else 0))"

definition calculateElasticBounce :: "real \<Rightarrow> real" where
  "calculateElasticBounce random = random * 0.1"

definition determineScrollDirection :: "BehavioralCollector \<Rightarrow> string" where
  "determineScrollDirection c =
    (if length (scrollData c) < 2 then ''none''
     else
       (let verticalMovement =
              sum_list (map (\<lambda>(prev, curr). \<bar>scrollY curr - scrollY prev\<bar>) (consecutive (scrollData c)));
            horizontalMovement =
              sum_list (map (\<lambda>(prev, curr). \<bar>scrollX curr - scrollX prev\<bar>) (consecutive (scrollData c)))
        in if verticalMovement > horizontalMovement * 2 then ''vertical''
           else if horizontalMovement > verticalMovement * 2 then ''horizontal''
           else if verticalMovement > 0 \<or> horizontalMovement > 0 then ''both''
           else ''none''))"

definition calculateScrollConsistency :: "real list \<Rightarrow> real" where
  "calculateScrollConsistency speeds =
    (if speeds = [] then 0
     else
       (let avg = average speeds;
            variance = sum_list (map (\<lambda>speed. (speed - avg)\<^sup>2) speeds) / real (length speeds)
        in if avg > 0 then 1 - min (sqrt variance / avg) 1 else 0))"

definition calculateScrollToTouchDelay :: "real \<Rightarrow> real" where
  "calculateScrollToTouchDelay random = random * 100"

definition calculateScrollRhythm :: "BehavioralCollector \<Rightarrow> real" where
  "calculateScrollRhythm c =
    (if length (scrollData c) < 2 then 0
     else
       (let intervals = map (\<lambda>(prev, curr). timestamp curr - timestamp prev) (consecutive (scrollData c));
            avgInterval = average intervals
        in if avgInterval > 0 then 1000 / avgInterval else 0))"

definition findPausePatterns :: "real list \<Rightarrow> real list" where
  "findPausePatterns intervals = filter (\<lambda>interval. interval > 500) intervals"

text \<open>\<^verbatim>\<open>s.charAt(0)\<close> is the first code unit as a string, or the empty string.\<close>

definition charAt0 :: "string \<Rightarrow> string" where
  "charAt0 s = take 1 s"

definition generateInteractionSequence :: "BehavioralCollector \<Rightarrow> string" where
  "generateInteractionSequence c = join [] (map (\<lambda>e. charAt0 (type e)) (touchData c))"

definition calculateRhythmConsistency :: "real list \<Rightarrow> real" where
  "calculateRhythmConsistency intervals =
    (if length intervals < 2 then 0
     else
       (let avg = average intervals;
            variance = sum_list (map (\<lambda>interval. (interval - avg)\<^sup>2) intervals) / real (length intervals)
        in if avg > 0 then max 0 (1 - sqrt variance / avg) else 0))"

definition calculateTremor :: "real list \<Rightarrow> real" where
  "calculateTremor accelerations =
    (if length accelerations < 2 then 0
     else
       (let changes = map (\<lambda>(prev, curr). \<bar>curr - prev\<bar>) (consecutive accelerations)
        in if length changes > 0 then average changes else 0))"

definition calculateScrollStability :: "BehavioralCollector \<Rightarrow> real" where
  "calculateScrollStability c =
    (if length (scrollData c) < 2 then 1
     else
       (let stability =
              sum_list (map (\<lambda>(prev, curr). \<bar>scrollY curr - scrollY prev\<bar> + \<bar>scrollX curr - scrollX prev\<bar>)
                            (consecutive (scrollData c)))
        in max 0 (1 - stability / 1000)))"

definition calculateTouchPrecision :: "BehavioralCollector \<Rightarrow> real" where
  "calculateTouchPrecision c =
    (let touchStarts = filter (\<lambda>e. type e = ''touchstart'') (touchData c)
     in if length touchStarts < 2 then 1
        else
          (let positions = map (\<lambda>e. case touches e of
                                        [] \<Rightarrow> (0, 0)
                                      | t # _ \<Rightarrow> (clientX t, clientY t)) touchStarts;
               totalVariation =
                 sum_list (map (\<lambda>(prev, curr). sqrt ((fst curr - fst prev)\<^sup>2 + (snd curr - snd prev)\<^sup>2))
                               (consecutive positions));
               avgVariation = totalVariation / real (length positions - 1)
           in max 0 (1 - avgVariation / 100)))"

text \<open>The triples \<^verbatim>\<open>(xs[i - 2], xs[i - 1], xs[i])\<close> for \<^verbatim>\<open>i = 2 .. xs.length - 1\<close>.\<close>

definition consecutive3 :: "'a list \<Rightarrow> ('a \<times> 'a \<times> 'a) list" where
  "consecutive3 xs = zip xs (zip (tl xs) (tl (tl xs)))"

definition calculateGestureFlowness :: "BehavioralCollector \<Rightarrow> real" where
  "calculateGestureFlowness c =
    (let touchMoves = filter (\<lambda>e. type e = ''touchmove'') (touchData c)
     in if length touchMoves < 3 then 1
        else
          (let flowness =
                 sum_list (map (\<lambda>(e1, e2, e3).
                    case (touches e1, touches e2, touches e3) of
                      (p1 # _, p2 # _, p3 # _) \<Rightarrow>
                        (let angle1 = Math_atan2 (clientY p2 - clientY p1) (clientX p2 - clientX p1);
                             angle2 = Math_atan2 (clientY p3 - clientY p2) (clientX p3 - clientX p2);
                             angleDiff = \<bar>angle2 - angle1\<bar>
                         in min angleDiff (pi - angleDiff))
                    | _ \<Rightarrow> 0) (consecutive3 touchMoves));
               avgAngleChange = flowness / real (length touchMoves - 2)
           in max 0 (1 - avgAngleChange / pi)))"

definition calculateMovementEntropy :: "Acceleration list \<Rightarrow> real" where
  "calculateMovementEntropy accelerations =
    (if accelerations = [] then 0
     else
       (let changes = map (\<lambda>a. sqrt ((or0 (accX a))\<^sup>2 + (or0 (accY a))\<^sup>2 + (or0 (accZ a))\<^sup>2)) accelerations;
            mx = Math_max_list changes;
            mn = Math_min_list changes
        in if mx > mn then (mx - mn) / mx else 0))"

definition analyzeTouchPatterns :: "BehavioralCollector \<Rightarrow> TouchPattern option" where
  "analyzeTouchPatterns c =
    (if length (touchData c) = 0 then None
     else
       (let allTouches = concat (map touches (touchData c))
        in if length allTouches = 0 then None
           else
             (let pressures = filter (\<lambda>p. p > 0) (map force allTouches);
                  areas = filter (\<lambda>a. a > 0) (map (\<lambda>t. radiusX t * radiusY t) allTouches);
                  touchStarts = filter (\<lambda>e. type e = ''touchstart'') (touchData c);
                  touchEnds = filter (\<lambda>e. type e = ''touchend'') (touchData c);
                  durations = map (\<lambda>(s, e). timeStamp e - timeStamp s) (zip touchStarts touchEnds);
                  totalDuration = sum_list durations;
                  touchCount = length durations;
                  touchMoves = filter (\<lambda>e. type e = ''touchmove'') (touchData c);
                  velocities = concat (map (\<lambda>(prev, curr).
                      case (touches prev, touches curr) of
                        (prevTouch # _, currTouch # _) \<Rightarrow>
                          (let distance = sqrt ((clientX currTouch - clientX prevTouch)\<^sup>2 +
                                                (clientY currTouch - clientY prevTouch)\<^sup>2);
                               timeDiff = timeStamp curr - timeStamp prev
                           in if timeDiff > 0 then [distance / timeDiff] else [])
                      | _ \<Rightarrow> []) (consecutive touchMoves))
              in Some \<lparr> averagePressure = (if length pressures > 0 then average pressures else 0),
                        averageArea = (if length areas > 0 then average areas else 0),
                        averageVelocity = (if length velocities > 0 then average velocities else 0),
                        touchDuration = (if touchCount > 0 then totalDuration / real touchCount else 0),
                        touchFrequency = real touchCount / (collectionDuration / 1000),
                        gestureComplexity = calculateGestureComplexity c,
                        touchPointVariation = calculateTouchPointVariation c \<rparr>)))"

text \<open>
  The loop of \<^verbatim>\<open>analyzeScrollBehavior\<close> over consecutive samples, on the pair
  \<^verbatim>\<open>(speeds, accelerations)\<close>; \<^verbatim>\<open>totalDistance\<close> is accumulated but never read.
\<close>

fun scroll_loop :: "(ScrollSample \<times> ScrollSample) list \<Rightarrow> real list \<times> real list \<Rightarrow> real list \<times> real list" where
  "scroll_loop [] (speeds, accelerations) = (speeds, accelerations)"
| "scroll_loop ((prev, cur) # rest) (speeds, accelerations) =
    (let distance = sqrt ((scrollX cur - scrollX prev)\<^sup>2 + (scrollY cur - scrollY prev)\<^sup>2);
         timeDiff = timestamp cur - timestamp prev
     in if timeDiff > 0 then
          (let speed = distance / timeDiff;
               speeds' = speeds @ [speed]
           in if length speeds' > 1
              then scroll_loop rest
                     (speeds', accelerations @ [(speed - speeds' ! (length speeds' - 2)) / timeDiff])
              else scroll_loop rest (speeds', accelerations))
        else scroll_loop rest (speeds, accelerations))"

definition analyzeScrollBehavior :: "BehavioralCollector \<Rightarrow> real \<Rightarrow> ScrollBehavior option" where
  "analyzeScrollBehavior c random =
    (if length (scrollData c) < 2 then None
     else
       (let (speeds, accelerations) = scroll_loop (consecutive (scrollData c)) ([], []);
            averageSpeed = (if length speeds > 0 then average speeds else 0);
            averageAcceleration = (if length accelerations > 0 then average accelerations else 0)
        in Some \<lparr> averageScrollSpeed = averageSpeed,
                  scrollAcceleration = \<bar>averageAcceleration\<bar>,
                  scrollDeceleration = calculateScrollDeceleration speeds,
                  momentumPattern = calculateMomentumPattern speeds,
                  elasticBounceSignature = calculateElasticBounce random,
                  scrollDirection = determineScrollDirection c,
                  scrollConsistency = calculateScrollConsistency speeds \<rparr>))"

definition analyzeTimingPatterns :: "BehavioralCollector \<Rightarrow> real \<Rightarrow> TimingFingerprint option" where
  "analyzeTimingPatterns c random =
    (if length (touchData c) = 0 then None
     else
       (let intervals = map (\<lambda>(prev, curr). timeStamp curr - timeStamp prev) (consecutive (touchData c));
            averageInterval = (if length intervals > 0 then average intervals else 0);
            variance = (if length intervals > 0
                        then sum_list (map (\<lambda>interval. (interval - averageInterval)\<^sup>2) intervals)
                               / real (length intervals)
                        else 0)
        in Some \<lparr> averageReactionTime = averageInterval,
                  keyboardInputTiming = 0,
                  scrollToTouchDelay = calculateScrollToTouchDelay random,
                  focusBlurPattern = 0,
                  interactionInterval = averageInterval,
                  timingVariability = sqrt variance \<rparr>))"

definition analyzeInteractionRhythm :: "BehavioralCollector \<Rightarrow> InteractionRhythm option" where
  "analyzeInteractionRhythm c =
    (if length (touchData c) = 0 then None
     else
       (let touchStarts = filter (\<lambda>e. type e = ''touchstart'') (touchData c);
            tapIntervals = map (\<lambda>(prev, curr). timeStamp curr - timeStamp prev) (consecutive touchStarts);
            averageTapInterval = (if length tapIntervals > 0 then average tapIntervals else 0);
            tapRhythm = (if averageTapInterval > 0 then 1000 / averageTapInterval else 0)
        in Some \<lparr> tapRhythm = tapRhythm,
                  scrollRhythm = calculateScrollRhythm c,
                  pausePatterns = findPausePatterns tapIntervals,
                  interactionSequence = generateInteractionSequence c,
                  rhythmConsistency = calculateRhythmConsistency tapIntervals \<rparr>))"

definition analyzeMotionSignature :: "BehavioralCollector \<Rightarrow> MotionSignature option" where
  "analyzeMotionSignature c =
    (if length (motionData c) = 0 then None
     else
       (let accelerations = map acceleration (motionData c);
            xAccels = map (\<lambda>a. or0 (accX a)) accelerations;
            yAccels = map (\<lambda>a. or0 (accY a)) accelerations;
            zAccels = map (\<lambda>a. or0 (accZ a)) accelerations;
            tremorX = calculateTremor xAccels;
            tremorY = calculateTremor yAccels;
            tremorZ = calculateTremor zAccels
        in Some \<lparr> handTremor = (tremorX + tremorY + tremorZ) / 3,
                  scrollStability = calculateScrollStability c,
                  touchPrecision = calculateTouchPrecision c,
                  gestureFlowness = calculateGestureFlowness c,
                  movementEntropy = calculateMovementEntropy accelerations \<rparr>))"

text \<open>
  \<^verbatim>\<open>generateFingerprint\<close>, given the two values \<^verbatim>\<open>Math.random()\<close> returns to
  \<^verbatim>\<open>calculateElasticBounce\<close> and to \<^verbatim>\<open>calculateScrollToTouchDelay\<close>.
\<close>

definition generateFingerprint :: "BehavioralCollector \<Rightarrow> real \<Rightarrow> real \<Rightarrow> BehavioralFingerprint" where
  "generateFingerprint c bounceRandom delayRandom =
    \<lparr> touchPatterns = analyzeTouchPatterns c,
      scrollBehavior = analyzeScrollBehavior c bounceRandom,
      timingFingerprint = analyzeTimingPatterns c delayRandom,
      interactionRhythm = analyzeInteractionRhythm c,
      motionSignature = analyzeMotionSignature c,
      isCollecting = False \<rparr>"

subsection \<open>The module and its single collector\<close>

text \<open>
  The module variable \<^verbatim>\<open>behavioralCollector\<close> is the state. A stimulus is a call of
  \<^verbatim>\<open>getBehavioralFingerprint\<close>, an event dispatched by the browser, or the expiry of the
  collection timer (with the two random draws of the reduction); a step returns the new
  state and the fingerprint a promise is resolved with in that step, if any.
\<close>

type_synonym module_state = "BehavioralCollector option"

datatype stimulus =
    Call_getBehavioralFingerprint
  | Dispatch dom_event
  | TimerExpires real real

definition alreadyCollecting :: BehavioralFingerprint where
  "alreadyCollecting =
    \<lparr> touchPatterns = None, scrollBehavior = None, timingFingerprint = None,
      interactionRhythm = None, motionSignature = None, isCollecting = True \<rparr>"

definition getBehavioralFingerprint :: "module_state \<Rightarrow> module_state \<times> BehavioralFingerprint option" where
  "getBehavioralFingerprint behavioralCollector =
    (case behavioralCollector of
       Some c \<Rightarrow> (behavioralCollector, Some alreadyCollecting)
     | None \<Rightarrow> (Some (start new_BehavioralCollector), None))"

definition timerExpires ::
  "module_state \<Rightarrow> real \<Rightarrow> real \<Rightarrow> module_state \<times> BehavioralFingerprint option" where
  "timerExpires behavioralCollector bounceRandom delayRandom =
    (case behavioralCollector of
       Some c \<Rightarrow> (None, Some (generateFingerprint (stop c) bounceRandom delayRandom))
     | None \<Rightarrow> (None, None))"

fun step :: "module_state \<Rightarrow> stimulus \<Rightarrow> module_state \<times> BehavioralFingerprint option" where
  "step s Call_getBehavioralFingerprint = getBehavioralFingerprint s"
| "step s (Dispatch event) = (map_option (\<lambda>c. dispatch c event) s, None)"
| "step s (TimerExpires bounceRandom delayRandom) = timerExpires s bounceRandom delayRandom"

fun run :: "module_state \<Rightarrow> stimulus list \<Rightarrow> module_state" where
  "run s [] = s"
| "run s (x # xs) = run (fst (step s x)) xs"

section \<open>Auxiliary predicates and concrete inputs\<close>

text \<open>Two weight tables compared at one key: both have it, and the first value is smaller.\<close>

definition weight_less :: "(string \<times> real) list \<Rightarrow> (string \<times> real) list \<Rightarrow> string \<Rightarrow> bool" where
  "weight_less t1 t2 k =
    (case (map_of t1 k, map_of t2 k) of (Some a, Some b) \<Rightarrow> a < b | _ \<Rightarrow> False)"

text \<open>The invariant of the module state: every collected touch event has a listened type.\<close>

definition listened :: "module_state \<Rightarrow> bool" where
  "listened s =
    (case s of None \<Rightarrow> True | Some c \<Rightarrow> list_all (\<lambda>e. type e \<in> set touchListenerTypes) (touchData c))"

text \<open>Three browsers.\<close>

definition desktopBrowser :: environment where
  "desktopBrowser =
    \<lparr> userAgent = ''Mozilla/5.0 (X11; Linux x86_64) Firefox/120.0'', Telegram_WebApp = False \<rparr>"

definition telegramAndroid :: environment where
  "telegramAndroid =
    \<lparr> userAgent = ''Mozilla/5.0 (Linux; Android 13) Telegram-Android/10.2'', Telegram_WebApp = False \<rparr>"

definition bridgeOnly :: environment where
  "bridgeOnly = \<lparr> userAgent = ''Mozilla/5.0 (iPhone) Safari/604.1'', Telegram_WebApp = True \<rparr>"

text \<open>A number format for the examples: the decimal digits of the integral part.\<close>

fun decimal :: "nat \<Rightarrow> string" where
  "decimal n = (if n < 10 then [''0123456789'' ! n] else decimal (n div 10) @ [''0123456789'' ! (n mod 10)])"

definition integralDigits :: "real \<Rightarrow> string" where
  "integralDigits r = (if r < 0 then ''-'' else []) @ decimal (nat \<lfloor>\<bar>r\<bar>\<rfloor>)"

text \<open>Component bags.\<close>

definition iPhoneBag :: jsobject where
  "iPhoneBag =
    [(''platform'', JStr ''iPhone''), (''timezone'', JStr ''exists''),
     (''behavioral'', JObj [(''touchPatterns'', JObj [])])]"

definition bareBridgeBag :: jsobject where
  "bareBridgeBag =
    [(''platform'', JStr ''Linux armv8l''),
     (''telegramWebApp'', JObj [(''isTelegramWebView'', JBool True)])]"

definition bridgeBag :: jsobject where
  "bridgeBag =
    [(''platform'', JObj [(''value'', JStr ''Linux armv8l'')]),
     (''telegramWebApp'', JObj [(''isTelegramWebView'', JBool True), (''telegramVersion'', JStr ''7.0'')]),
     (''haptic'', JObj [(''isAvailable'', JBool True), (''isTelegramHaptic'', JBool True)])]"



text \<open>Stimuli of three collections, and the windows they leave when the timer expires.\<close>

definition fingerAt :: "real \<Rightarrow> real \<Rightarrow> Touch" where
  "fingerAt px py = \<lparr> force = 0.5, radiusX = 11, radiusY = 12, clientX = px, clientY = py \<rparr>"

definition tapStimuli :: "stimulus list" where
  "tapStimuli =
    [Call_getBehavioralFingerprint,
     Dispatch (DocumentEvent \<lparr> type = ''touchstart'', timeStamp = 100, touches = [fingerAt 40 50] \<rparr>),
     Dispatch (DocumentEvent \<lparr> type = ''click'', timeStamp = 130, touches = [] \<rparr>),
     Call_getBehavioralFingerprint,
     Dispatch (DocumentEvent \<lparr> type = ''touchend'', timeStamp = 180, touches = [] \<rparr>)]"

definition tapWindow :: BehavioralCollector where
  "tapWindow =
    \<lparr> touchData =
        [\<lparr> type = ''touchstart'', timeStamp = 100, touches = [fingerAt 40 50] \<rparr>,
         \<lparr> type = ''touchend'', timeStamp = 180, touches = [] \<rparr>],
      scrollData = [], motionData = [], isActive = True, listening = True \<rparr>"

definition oneScrollStimuli :: "stimulus list" where
  "oneScrollStimuli = [Call_getBehavioralFingerprint, Dispatch (Scroll 1000 120 0)]"

definition oneScrollWindow :: BehavioralCollector where
  "oneScrollWindow =
    \<lparr> touchData = [], scrollData = [\<lparr> timestamp = 1000, scrollY = 120, scrollX = 0 \<rparr>],
      motionData = [], isActive = True, listening = True \<rparr>"

definition liftStimuli :: "stimulus list" where
  "liftStimuli =
    [Call_getBehavioralFingerprint,
     Dispatch (DocumentEvent \<lparr> type = ''touchend'', timeStamp = 70, touches = [] \<rparr>)]"

definition liftWindow :: BehavioralCollector where
  "liftWindow =
    \<lparr> touchData = [\<lparr> type = ''touchend'', timeStamp = 70, touches = [] \<rparr>],
      scrollData = [], motionData = [], isActive = True, listening = True \<rparr>"

section \<open>Properties of the confidence score\<close>

lemma telegramAndroid_detected: "detectTelegramEnvironment telegramAndroid"
  by (simp add: detectTelegramEnvironment_def telegramAndroid_def regex_test_i_def
      toLowerCase_def lower_char_def Let_def)

lemma bridgeOnly_detected: "detectTelegramEnvironment bridgeOnly"
  by (simp add: detectTelegramEnvironment_def bridgeOnly_def)

lemma desktopBrowser_not_detected: "\<not> detectTelegramEnvironment desktopBrowser"
  by (simp add: detectTelegramEnvironment_def desktopBrowser_def regex_test_i_def
      toLowerCase_def lower_char_def Let_def)

text \<open>A property read from a truthy value never raises.\<close>

lemma get_prop_truthy: "truthy v \<Longrightarrow> get_prop v k = Inr (opt_prop v k)"
  by (cases v) auto

lemma behavioralFactorOf_cases:
  "behavioralFactorOf components = Inr 0 \<or> behavioralFactorOf components = Inr 0.2"
  by (simp add: behavioralFactorOf_def Let_def get_prop_truthy)

lemma webViewFactorOf_cases:
  "webViewFactorOf components = Inr 0 \<or> webViewFactorOf components = Inr 0.25"
  by (simp add: webViewFactorOf_def Let_def get_prop_truthy)

lemma hapticFactorOf_cases:
  "hapticFactorOf components = Inr 0 \<or> hapticFactorOf components = Inr 0.15"
  by (simp add: hapticFactorOf_def Let_def get_prop_truthy)

lemma networkFactorOf_cases:
  "networkFactorOf components = Inr 0 \<or> networkFactorOf components = Inr 0.1"
  by (simp add: networkFactorOf_def Let_def get_prop_truthy)

lemma getEnhancedConfidenceScore_returns:
  "\<exists>r. getEnhancedConfidenceScore env components = Inr r"
  using behavioralFactorOf_cases [of components] webViewFactorOf_cases [of components]
    hapticFactorOf_cases [of components] networkFactorOf_cases [of components]
  by (auto simp: getEnhancedConfidenceScore_def Let_def)

lemma score_clamped:
  "getEnhancedConfidenceScore env components = Inr r \<Longrightarrow> 0.1 \<le> score r \<and> score r \<le> 0.9"
  by (auto simp: getEnhancedConfidenceScore_def Let_def split: sum.splits)

lemma empty_bag_score:
  "getEnhancedConfidenceScore env [] = Inr r \<Longrightarrow> \<not> detectTelegramEnvironment env \<Longrightarrow> score r = 0.5"
  by (auto simp: getEnhancedConfidenceScore_def Let_def behavioralFactorOf_def webViewFactorOf_def
      hapticFactorOf_def networkFactorOf_def platformAdjustment_def has_key_def finalScoreOf_def
      split: sum.splits)

text \<open>
  C2. For every component bag, well-formed or not, \<^verbatim>\<open>getEnhancedConfidenceScore\<close> returns
  (it raises no error) and the score it returns lies in \<open>[0.1, 0.9]\<close>; for the empty bag in
  an environment that is not detected as Telegram the score is exactly \<open>0.5\<close>.
\<close>

theorem confidence_score_in_range:
  "(\<exists>r. getEnhancedConfidenceScore env components = Inr r \<and> 0.1 \<le> score r \<and> score r \<le> 0.9) \<and>
   (\<not> detectTelegramEnvironment env \<longrightarrow>
      (\<exists>r. getEnhancedConfidenceScore env [] = Inr r \<and> score r = 0.5))"
  using getEnhancedConfidenceScore_returns score_clamped empty_bag_score by blast

theorem confidence_score_in_range_witness:
  "\<not> detectTelegramEnvironment desktopBrowser \<and>
   (\<exists>r. getEnhancedConfidenceScore desktopBrowser [] = Inr r \<and> score r = 0.5)"
proof -
  have "\<not> detectTelegramEnvironment desktopBrowser"
    by (simp add: detectTelegramEnvironment_def desktopBrowser_def regex_test_i_def
        toLowerCase_def lower_char_def Let_def)
  then show ?thesis
    using confidence_score_in_range [of desktopBrowser "[]"] by simp
qed

text \<open>
  C9. In an environment detected as Telegram, the bag
  \<^verbatim>\<open>{platform: "iPhone", timezone: "exists", behavioral: {touchPatterns: present}}\<close>, for any
  truthy \<^verbatim>\<open>present\<close>, gets \<open>behavioralFactor = 0.2\<close>, \<open>webViewFactor = 0\<close> and the score
  \<open>min(0.9, 0.6 + 0.2) = 0.8\<close>.
\<close>

theorem example_bag_score:
  assumes "detectTelegramEnvironment env" and "truthy present"
  shows "\<exists>r. getEnhancedConfidenceScore env
            [(''platform'', JStr ''iPhone''), (''timezone'', JStr ''exists''),
             (''behavioral'', JObj [(''touchPatterns'', present)])] = Inr r \<and>
          behavioralFactor r = 0.2 \<and> webViewFactor r = 0 \<and>
          score r = min 0.9 (0.6 + 0.2) \<and> score r = 0.8"
  using assms
  by (simp add: getEnhancedConfidenceScore_def Let_def behavioralFactorOf_def webViewFactorOf_def
      hapticFactorOf_def networkFactorOf_def platformAdjustment_def has_key_def get_def js_or_def
      finalScoreOf_def extractTelegramContext_def)

theorem example_bag_score_witness:
  "detectTelegramEnvironment telegramAndroid \<and> truthy (JObj []) \<and>
   (\<exists>r. getEnhancedConfidenceScore telegramAndroid iPhoneBag = Inr r \<and>
      behavioralFactor r = 0.2 \<and> webViewFactor r = 0 \<and> score r = 0.8)"
proof -
  have t: "detectTelegramEnvironment telegramAndroid"
    by (simp add: detectTelegramEnvironment_def telegramAndroid_def regex_test_i_def
        toLowerCase_def lower_char_def Let_def)
  have p: "truthy (JObj [])" by simp
  show ?thesis
    using t p example_bag_score [OF t p] by (auto simp: iPhoneBag_def)
qed

section \<open>Properties of the stability score\<close>

lemma stabilityCounts_bounds:
  "0 \<le> fst (stabilityCounts components context) \<and>
   fst (stabilityCounts components context) \<le> snd (stabilityCounts components context)"
  by (simp add: stabilityCounts_def Let_def)

lemma stability_range:
  "0 \<le> calculateStabilityScore components context \<and> calculateStabilityScore components context \<le> 1"
  using stabilityCounts_bounds [of components "context"]
  by (auto simp: calculateStabilityScore_def Let_def split: prod.splits)

lemma stability_half:
  "\<not> has_key ''platform'' components \<Longrightarrow> \<not> has_key ''timezone'' components \<Longrightarrow>
   \<not> (has_key ''hardwareConcurrency'' components \<and> has_key ''deviceMemory'' components) \<Longrightarrow>
   \<not> has_key ''languages'' components \<Longrightarrow> \<not> truthy (isTelegramWebView context) \<Longrightarrow>
   calculateStabilityScore components context = 0.5"
  by (auto simp: calculateStabilityScore_def stabilityCounts_def Let_def)

lemma stability_target:
  "truthy (isTelegramWebView context) \<Longrightarrow>
   stabilityCounts components context =
     (fst (stabilityCounts components (context\<lparr>isTelegramWebView := JBool False\<rparr>))
        + (if truthy (telegramVersion context) then 1 else 0)
        + (if truthy (hasHapticFeedback context) then 0.5 else 0),
      snd (stabilityCounts components (context\<lparr>isTelegramWebView := JBool False\<rparr>)) + 1.5)"
  by (simp add: stabilityCounts_def Let_def)

lemma stabilityScore_of_result:
  "getEnhancedConfidenceScore env components = Inr r \<Longrightarrow>
   stabilityScore r = calculateStabilityScore components (extractTelegramContext components)"
  by (auto simp: getEnhancedConfidenceScore_def Let_def split: sum.splits)

text \<open>
  The pair in closed form: \<open>k\<close> counts the structural signals that are present.
\<close>

lemma stabilityCounts_closed:
  "stabilityCounts components context =
    (let k = (of_bool (has_key ''platform'' components) + of_bool (has_key ''timezone'' components) +
            of_bool (has_key ''hardwareConcurrency'' components \<and> has_key ''deviceMemory'' components) +
            of_bool (has_key ''languages'' components) :: real);
         v = (if truthy (telegramVersion context) then 1 else 0);
         h = (if truthy (hasHapticFeedback context) then 0.5 else 0)
     in if truthy (isTelegramWebView context) then (k + v + h, k + 1.5) else (k, k))"
  by (simp add: stabilityCounts_def Let_def)

lemma stabilityScore_quotient:
  "calculateStabilityScore components context =
    (if snd (stabilityCounts components context) > 0
     then fst (stabilityCounts components context) / snd (stabilityCounts components context)
     else 0.5)"
  by (simp add: calculateStabilityScore_def split: prod.splits)

lemma stabilityScore_closed:
  "calculateStabilityScore components context =
    (let k = (of_bool (has_key ''platform'' components) + of_bool (has_key ''timezone'' components) +
            of_bool (has_key ''hardwareConcurrency'' components \<and> has_key ''deviceMemory'' components) +
            of_bool (has_key ''languages'' components) :: real);
         v = (if truthy (telegramVersion context) then 1 else 0);
         h = (if truthy (hasHapticFeedback context) then 0.5 else 0)
     in if truthy (isTelegramWebView context) then (k + v + h) / (k + 1.5)
        else if k > 0 then k / k else 0.5)"
proof -
  have pos: "0 \<le> (of_bool (has_key ''platform'' components) + of_bool (has_key ''timezone'' components) +
            of_bool (has_key ''hardwareConcurrency'' components \<and> has_key ''deviceMemory'' components) +
            of_bool (has_key ''languages'' components) :: real)"
    by simp
  show ?thesis
    unfolding stabilityScore_quotient stabilityCounts_closed Let_def
    using pos by (simp add: add_pos_nonneg)
qed

text \<open>
  C6. For every component bag and context the stability score lies in \<open>[0, 1]\<close>, also as the
  \<^verbatim>\<open>stabilityScore\<close> field of the confidence result. It is exactly \<open>0.5\<close> when none of
  platform, timezone, hardwareConcurrency together with deviceMemory, and languages is
  present and the context is not the Telegram WebView. When the context is the Telegram
  WebView, the pair (numerator, denominator) is the one of the same bag outside Telegram
  with \<open>1.5\<close> added to the denominator and, to the numerator, \<open>1\<close> if the version is present
  plus \<open>0.5\<close> if haptic feedback is present. The score is the quotient of that pair
  (\<open>0.5\<close> when the denominator is \<open>0\<close>): with \<open>k\<close> the number of structural signals present,
  it is \<open>(k + v + h) / (k + 1.5)\<close> in the Telegram WebView context, where \<open>v\<close> is \<open>1\<close> or
  \<open>0\<close> and \<open>h\<close> is \<open>0.5\<close> or \<open>0\<close>, and outside it \<open>k / k\<close> when \<open>k > 0\<close> and \<open>0.5\<close>
  otherwise.
\<close>

theorem stability_score_range:
  "0 \<le> calculateStabilityScore components context \<and>
   calculateStabilityScore components context \<le> 1 \<and>
   (\<not> has_key ''platform'' components \<and> \<not> has_key ''timezone'' components \<and>
    \<not> (has_key ''hardwareConcurrency'' components \<and> has_key ''deviceMemory'' components) \<and>
    \<not> has_key ''languages'' components \<and> \<not> truthy (isTelegramWebView context)
      \<longrightarrow> calculateStabilityScore components context = 0.5) \<and>
   (truthy (isTelegramWebView context) \<longrightarrow>
      stabilityCounts components context =
        (fst (stabilityCounts components (context\<lparr>isTelegramWebView := JBool False\<rparr>))
           + (if truthy (telegramVersion context) then 1 else 0)
           + (if truthy (hasHapticFeedback context) then 0.5 else 0),
         snd (stabilityCounts components (context\<lparr>isTelegramWebView := JBool False\<rparr>)) + 1.5)) \<and>
   (getEnhancedConfidenceScore env components = Inr r \<longrightarrow>
      0 \<le> stabilityScore r \<and> stabilityScore r \<le> 1 \<and>
      stabilityScore r = calculateStabilityScore components (extractTelegramContext components)) \<and>
   calculateStabilityScore components context =
     (if snd (stabilityCounts components context) > 0
      then fst (stabilityCounts components context) / snd (stabilityCounts components context)
      else 0.5) \<and>
   stabilityCounts components context =
     (let k = (of_bool (has_key ''platform'' components) + of_bool (has_key ''timezone'' components) +
            of_bool (has_key ''hardwareConcurrency'' components \<and> has_key ''deviceMemory'' components) +
            of_bool (has_key ''languages'' components) :: real);
          v = (if truthy (telegramVersion context) then 1 else 0);
          h = (if truthy (hasHapticFeedback context) then 0.5 else 0)
      in if truthy (isTelegramWebView context) then (k + v + h, k + 1.5) else (k, k)) \<and>
   calculateStabilityScore components context =
     (let k = (of_bool (has_key ''platform'' components) + of_bool (has_key ''timezone'' components) +
            of_bool (has_key ''hardwareConcurrency'' components \<and> has_key ''deviceMemory'' components) +
            of_bool (has_key ''languages'' components) :: real);
          v = (if truthy (telegramVersion context) then 1 else 0);
          h = (if truthy (hasHapticFeedback context) then 0.5 else 0)
      in if truthy (isTelegramWebView context) then (k + v + h) / (k + 1.5)
         else if k > 0 then k / k else 0.5)"
proof (intro conjI impI)
  show "0 \<le> calculateStabilityScore components context"
    and "calculateStabilityScore components context \<le> 1"
    using stability_range [of components "context"] by simp_all
next
  assume "\<not> has_key ''platform'' components \<and> \<not> has_key ''timezone'' components \<and>
    \<not> (has_key ''hardwareConcurrency'' components \<and> has_key ''deviceMemory'' components) \<and>
    \<not> has_key ''languages'' components \<and> \<not> truthy (isTelegramWebView context)"
  then show "calculateStabilityScore components context = 0.5"
    using stability_half [of components "context"] by blast
next
  assume "truthy (isTelegramWebView context)"
  then show "stabilityCounts components context =
        (fst (stabilityCounts components (context\<lparr>isTelegramWebView := JBool False\<rparr>))
           + (if truthy (telegramVersion context) then 1 else 0)
           + (if truthy (hasHapticFeedback context) then 0.5 else 0),
         snd (stabilityCounts components (context\<lparr>isTelegramWebView := JBool False\<rparr>)) + 1.5)"
    by (rule stability_target)
next
  assume r: "getEnhancedConfidenceScore env components = Inr r"
  then show "stabilityScore r = calculateStabilityScore components (extractTelegramContext components)"
    by (rule stabilityScore_of_result)
  then show "0 \<le> stabilityScore r" and "stabilityScore r \<le> 1"
    using stability_range [of components "extractTelegramContext components"] by simp_all
next
  show "calculateStabilityScore components context =
     (if snd (stabilityCounts components context) > 0
      then fst (stabilityCounts components context) / snd (stabilityCounts components context)
      else 0.5)"
    by (rule stabilityScore_quotient)
next
  show "stabilityCounts components context =
     (let k = (of_bool (has_key ''platform'' components) + of_bool (has_key ''timezone'' components) +
            of_bool (has_key ''hardwareConcurrency'' components \<and> has_key ''deviceMemory'' components) +
            of_bool (has_key ''languages'' components) :: real);
          v = (if truthy (telegramVersion context) then 1 else 0);
          h = (if truthy (hasHapticFeedback context) then 0.5 else 0)
      in if truthy (isTelegramWebView context) then (k + v + h, k + 1.5) else (k, k))"
    by (rule stabilityCounts_closed)
next
  show "calculateStabilityScore components context =
     (let k = (of_bool (has_key ''platform'' components) + of_bool (has_key ''timezone'' components) +
            of_bool (has_key ''hardwareConcurrency'' components \<and> has_key ''deviceMemory'' components) +
            of_bool (has_key ''languages'' components) :: real);
          v = (if truthy (telegramVersion context) then 1 else 0);
          h = (if truthy (hasHapticFeedback context) then 0.5 else 0)
      in if truthy (isTelegramWebView context) then (k + v + h) / (k + 1.5)
         else if k > 0 then k / k else 0.5)"
    by (rule stabilityScore_closed)
qed

theorem stability_score_range_witness:
  "\<not> has_key ''platform'' [] \<and> \<not> truthy (isTelegramWebView (extractTelegramContext [])) \<and>
   calculateStabilityScore [] (extractTelegramContext []) = 0.5 \<and>
   truthy (isTelegramWebView (extractTelegramContext bridgeBag)) \<and>
   stabilityCounts bridgeBag (extractTelegramContext bridgeBag) = (1 + 1 + 0.5, 1 + 1.5) \<and>
   calculateStabilityScore bridgeBag (extractTelegramContext bridgeBag) = 1 \<and>
   truthy (isTelegramWebView (extractTelegramContext bareBridgeBag)) \<and>
   calculateStabilityScore bareBridgeBag (extractTelegramContext bareBridgeBag) = 0.4 \<and>
   calculateStabilityScore iPhoneBag (extractTelegramContext iPhoneBag) = 1 \<and>
   (\<exists>r. getEnhancedConfidenceScore bridgeOnly bridgeBag = Inr r \<and>
      0 \<le> stabilityScore r \<and> stabilityScore r \<le> 1 \<and> stabilityScore r = 1)"
proof -
  have e: "\<not> has_key ''platform'' [] \<and> \<not> has_key ''timezone'' [] \<and>
      \<not> (has_key ''hardwareConcurrency'' [] \<and> has_key ''deviceMemory'' []) \<and>
      \<not> has_key ''languages'' [] \<and> \<not> truthy (isTelegramWebView (extractTelegramContext []))"
    by (simp add: has_key_def extractTelegramContext_def js_or_def)
  have half: "calculateStabilityScore [] (extractTelegramContext []) = 0.5"
    using e stability_score_range [of "[]" "extractTelegramContext []"] by blast
  have t: "truthy (isTelegramWebView (extractTelegramContext bridgeBag))"
    by (simp add: extractTelegramContext_def bridgeBag_def has_key_def get_def js_or_def)
  have base: "stabilityCounts bridgeBag ((extractTelegramContext bridgeBag)\<lparr>isTelegramWebView := JBool False\<rparr>) = (1, 1)"
    by (simp add: stabilityCounts_def bridgeBag_def has_key_def)
  have v: "truthy (telegramVersion (extractTelegramContext bridgeBag))"
    and h: "truthy (hasHapticFeedback (extractTelegramContext bridgeBag))"
    by (simp_all add: extractTelegramContext_def bridgeBag_def has_key_def get_def js_or_def)
  have counts: "stabilityCounts bridgeBag (extractTelegramContext bridgeBag) = (1 + 1 + 0.5, 1 + 1.5)"
    using t stability_score_range [of bridgeBag "extractTelegramContext bridgeBag"] base v h
    by simp
  have "calculateStabilityScore bridgeBag (extractTelegramContext bridgeBag) =
     (if snd (stabilityCounts bridgeBag (extractTelegramContext bridgeBag)) > 0
      then fst (stabilityCounts bridgeBag (extractTelegramContext bridgeBag))
           / snd (stabilityCounts bridgeBag (extractTelegramContext bridgeBag))
      else 0.5)"
    using stability_score_range [of bridgeBag "extractTelegramContext bridgeBag"] by blast
  then have one: "calculateStabilityScore bridgeBag (extractTelegramContext bridgeBag) = 1"
    by (simp add: counts)
  have t': "truthy (isTelegramWebView (extractTelegramContext bareBridgeBag))"
    and v': "\<not> truthy (telegramVersion (extractTelegramContext bareBridgeBag))"
    and h': "\<not> truthy (hasHapticFeedback (extractTelegramContext bareBridgeBag))"
    by (simp_all add: extractTelegramContext_def bareBridgeBag_def has_key_def get_def js_or_def)
  have closed: "calculateStabilityScore bareBridgeBag (extractTelegramContext bareBridgeBag) =
     (let k = (of_bool (has_key ''platform'' bareBridgeBag) + of_bool (has_key ''timezone'' bareBridgeBag) +
            of_bool (has_key ''hardwareConcurrency'' bareBridgeBag \<and> has_key ''deviceMemory'' bareBridgeBag) +
            of_bool (has_key ''languages'' bareBridgeBag) :: real);
          v = (if truthy (telegramVersion (extractTelegramContext bareBridgeBag)) then 1 else 0);
          h = (if truthy (hasHapticFeedback (extractTelegramContext bareBridgeBag)) then 0.5 else 0)
      in if truthy (isTelegramWebView (extractTelegramContext bareBridgeBag)) then (k + v + h) / (k + 1.5)
         else if k > 0 then k / k else 0.5)"
    using stability_score_range [of bareBridgeBag "extractTelegramContext bareBridgeBag"] by blast
  have bare: "calculateStabilityScore bareBridgeBag (extractTelegramContext bareBridgeBag) = 0.4"
    unfolding closed Let_def using t' v' h' by (simp add: bareBridgeBag_def has_key_def)
  have nt: "\<not> truthy (isTelegramWebView (extractTelegramContext iPhoneBag))"
    by (simp add: extractTelegramContext_def iPhoneBag_def has_key_def get_def js_or_def Let_def)
  have closed2: "calculateStabilityScore iPhoneBag (extractTelegramContext iPhoneBag) =
     (let k = (of_bool (has_key ''platform'' iPhoneBag) + of_bool (has_key ''timezone'' iPhoneBag) +
            of_bool (has_key ''hardwareConcurrency'' iPhoneBag \<and> has_key ''deviceMemory'' iPhoneBag) +
            of_bool (has_key ''languages'' iPhoneBag) :: real);
          v = (if truthy (telegramVersion (extractTelegramContext iPhoneBag)) then 1 else 0);
          h = (if truthy (hasHapticFeedback (extractTelegramContext iPhoneBag)) then 0.5 else 0)
      in if truthy (isTelegramWebView (extractTelegramContext iPhoneBag)) then (k + v + h) / (k + 1.5)
         else if k > 0 then k / k else 0.5)"
    using stability_score_range [of iPhoneBag "extractTelegramContext iPhoneBag"] by blast
  have plain: "calculateStabilityScore iPhoneBag (extractTelegramContext iPhoneBag) = 1"
    unfolding closed2 Let_def using nt by (simp add: iPhoneBag_def has_key_def)
  obtain r where r: "getEnhancedConfidenceScore bridgeOnly bridgeBag = Inr r"
    using getEnhancedConfidenceScore_returns by blast
  then have "0 \<le> stabilityScore r \<and> stabilityScore r \<le> 1 \<and>
      stabilityScore r = calculateStabilityScore bridgeBag (extractTelegramContext bridgeBag)"
    using stability_score_range [of bridgeBag "extractTelegramContext bridgeBag" bridgeOnly r] by blast
  with one have "0 \<le> stabilityScore r \<and> stabilityScore r \<le> 1 \<and> stabilityScore r = 1" by simp
  with r e half t counts one t' bare plain show ?thesis by blast
qed

section \<open>Properties of the weight table\<close>

lemma map_of_fold_update:
  "map_of (fold (\<lambda>(k, v). AList.update k v) source target) = map_of target ++ map_of (rev source)"
proof (induction source arbitrary: target)
  case Nil
  show ?case by simp
next
  case (Cons kv source)
  obtain k v where kv: "kv = (k, v)" by (cases kv)
  have "map_of (fold (\<lambda>(k, v). AList.update k v) (kv # source) target)
        = map_of (AList.update k v target) ++ map_of (rev source)"
    using Cons.IH [of "AList.update k v target"] by (simp add: kv)
  also have "\<dots> = map_of target ++ map_of (rev (kv # source))"
    by (rule ext) (auto simp: kv update_conv' map_add_def split: option.splits)
  finally show ?case .
qed

lemma map_of_rev_distinct:
  "distinct (map fst xs) \<Longrightarrow> map_of (rev xs) = map_of xs"
proof (induction xs)
  case Nil
  show ?case by simp
next
  case (Cons kv xs)
  then have IH: "map_of (rev xs) = map_of xs" and fresh: "fst kv \<notin> fst ` set xs" by auto
  from fresh have "map_of xs (fst kv) = None" by (simp add: map_of_eq_None_iff)
  then show ?case
    by (cases kv) (auto simp: IH map_add_def fun_eq_iff split: option.splits)
qed

lemma map_of_Object_assign:
  "distinct (map fst source) \<Longrightarrow>
   map_of (Object_assign target source) = map_of target ++ map_of source"
  by (simp add: Object_assign_def map_of_fold_update map_of_rev_distinct)

lemma distinct_telegramWeights: "distinct (map fst telegramWeights)"
  by (simp add: telegramWeights_def)

lemma weights_not_target:
  "\<not> detectTelegramEnvironment env \<Longrightarrow> E_weights (adjustSourceWeights env components) = baseWeights"
  by (simp add: adjustSourceWeights_def Let_def)

lemma weights_target:
  "detectTelegramEnvironment env \<Longrightarrow>
   map_of (E_weights (adjustSourceWeights env components)) = map_of baseWeights ++ map_of telegramWeights"
  by (simp add: adjustSourceWeights_def Let_def map_of_Object_assign distinct_telegramWeights)

text \<open>
  C4. The adapter tests the classification of the environment, \<^verbatim>\<open>detectTelegramEnvironment()\<close>
  (the user agent names Telegram, or the bridge object is defined); this is the context
  being or not being the target WebView. (The \<^verbatim>\<open>isTelegramWebView\<close> field of the attached
  \<^verbatim>\<open>_telegramContext\<close> is copied from the \<^verbatim>\<open>telegramWebApp\<close> component and is not what the
  adapter tests.) When the environment is not Telegram the attached table is the baseline
  table itself. When it is, every key that the override set lacks keeps the baseline entry
  (or stays absent), and every key of the override set has exactly the override value.
\<close>

theorem weights_keywise:
  "(\<not> detectTelegramEnvironment env \<longrightarrow>
      E_weights (adjustSourceWeights env components) = baseWeights) \<and>
   (detectTelegramEnvironment env \<longrightarrow>
      (\<forall>k. (k \<notin> fst ` set telegramWeights \<longrightarrow>
              map_of (E_weights (adjustSourceWeights env components)) k = map_of baseWeights k) \<and>
           (\<forall>w. (k, w) \<in> set telegramWeights \<longrightarrow>
              map_of (E_weights (adjustSourceWeights env components)) k = Some w)))"
proof (intro conjI impI allI)
  assume "\<not> detectTelegramEnvironment env"
  then show "E_weights (adjustSourceWeights env components) = baseWeights"
    by (rule weights_not_target)
next
  fix k
  assume t: "detectTelegramEnvironment env" and k: "k \<notin> fst ` set telegramWeights"
  from k have "map_of telegramWeights k = None" by (simp add: map_of_eq_None_iff)
  with t show "map_of (E_weights (adjustSourceWeights env components)) k = map_of baseWeights k"
    by (simp add: weights_target map_add_def)
next
  fix k w
  assume t: "detectTelegramEnvironment env" and kw: "(k, w) \<in> set telegramWeights"
  from kw have "map_of telegramWeights k = Some w"
    using distinct_telegramWeights by simp
  with t show "map_of (E_weights (adjustSourceWeights env components)) k = Some w"
    by (simp add: weights_target map_add_def)
qed

theorem weights_keywise_witness:
  "\<not> detectTelegramEnvironment desktopBrowser \<and>
   E_weights (adjustSourceWeights desktopBrowser iPhoneBag) = baseWeights \<and>
   detectTelegramEnvironment telegramAndroid \<and>
   ''osCpu'' \<notin> fst ` set telegramWeights \<and>
   map_of (E_weights (adjustSourceWeights telegramAndroid iPhoneBag)) ''osCpu'' = Some 1.0 \<and>
   (''canvas'', 0.4) \<in> set telegramWeights \<and>
   map_of (E_weights (adjustSourceWeights telegramAndroid iPhoneBag)) ''canvas'' = Some 0.4"
proof -
  have d: "\<not> detectTelegramEnvironment desktopBrowser"
    by (simp add: detectTelegramEnvironment_def desktopBrowser_def regex_test_i_def
        toLowerCase_def lower_char_def Let_def)
  have t: "detectTelegramEnvironment telegramAndroid"
    by (simp add: detectTelegramEnvironment_def telegramAndroid_def regex_test_i_def
        toLowerCase_def lower_char_def Let_def)
  have absent: "''osCpu'' \<notin> fst ` set telegramWeights"
    by (simp add: telegramWeights_def)
  have present: "(''canvas'', 0.4) \<in> set telegramWeights"
    by (simp add: telegramWeights_def)
  have base: "map_of baseWeights ''osCpu'' = Some 1.0"
    by (simp add: baseWeights_def)
  from d have 1: "E_weights (adjustSourceWeights desktopBrowser iPhoneBag) = baseWeights"
    using weights_keywise [of desktopBrowser iPhoneBag] by blast
  from t absent base
  have 2: "map_of (E_weights (adjustSourceWeights telegramAndroid iPhoneBag)) ''osCpu'' = Some 1.0"
    using weights_keywise [of telegramAndroid iPhoneBag] by metis
  from t present
  have 3: "map_of (E_weights (adjustSourceWeights telegramAndroid iPhoneBag)) ''canvas'' = Some 0.4"
    using weights_keywise [of telegramAndroid iPhoneBag] by blast
  from d t absent present 1 2 3 show ?thesis by blast
qed

text \<open>
  The classification of the environment and the \<^verbatim>\<open>isTelegramWebView\<close> field that
  \<^verbatim>\<open>extractTelegramContext\<close> copies from the bag are independent inputs: in a Telegram
  browser whose bag has no \<^verbatim>\<open>telegramWebApp\<close> component the override is applied while the
  attached context says \<^verbatim>\<open>false\<close>, and in a desktop browser with the bag of a bridge the
  table is the baseline while the attached context says \<^verbatim>\<open>true\<close>.
\<close>

lemma classification_and_context_field:
  "isTelegramWebView (E_telegramContext (adjustSourceWeights telegramAndroid iPhoneBag)) = JBool False"
  "map_of (E_weights (adjustSourceWeights telegramAndroid iPhoneBag)) ''canvas'' = Some 0.4"
  "isTelegramWebView (E_telegramContext (adjustSourceWeights desktopBrowser bridgeBag)) = JBool True"
  "E_weights (adjustSourceWeights desktopBrowser bridgeBag) = baseWeights"
proof -
  show "isTelegramWebView (E_telegramContext (adjustSourceWeights telegramAndroid iPhoneBag)) = JBool False"
    by (simp add: adjustSourceWeights_def Let_def extractTelegramContext_def iPhoneBag_def
        has_key_def js_or_def)
  show "map_of (E_weights (adjustSourceWeights telegramAndroid iPhoneBag)) ''canvas'' = Some 0.4"
    by (simp add: weights_target [OF telegramAndroid_detected] map_add_def telegramWeights_def)
  show "isTelegramWebView (E_telegramContext (adjustSourceWeights desktopBrowser bridgeBag)) = JBool True"
    by (simp add: adjustSourceWeights_def Let_def extractTelegramContext_def bridgeBag_def
        has_key_def get_def js_or_def)
  show "E_weights (adjustSourceWeights desktopBrowser bridgeBag) = baseWeights"
    by (rule weights_not_target [OF desktopBrowser_not_detected])
qed

lemma target_lookups:
  assumes "detectTelegramEnvironment env"
  shows "map_of (E_weights (adjustSourceWeights env components)) ''canvas'' = Some 0.4"
    and "map_of (E_weights (adjustSourceWeights env components)) ''audio'' = Some 0.3"
    and "map_of (E_weights (adjustSourceWeights env components)) ''telegramWebApp'' = Some 2.5"
    and "map_of (E_weights (adjustSourceWeights env components)) ''webView'' = Some 2.0"
    and "map_of (E_weights (adjustSourceWeights env components)) ''behavioral'' = Some 2.2"
  using assms by (simp_all add: weights_target map_add_def telegramWeights_def)

text \<open>
  C5. In an environment detected as Telegram, the adapted table has strictly smaller
  weights than the baseline table for canvas and audio, and strictly larger ones for
  telegramWebApp, webView and behavioral.
\<close>

theorem target_weights_shift:
  assumes "detectTelegramEnvironment env"
  shows "weight_less (E_weights (adjustSourceWeights env components)) baseWeights ''canvas'' \<and>
         weight_less (E_weights (adjustSourceWeights env components)) baseWeights ''audio'' \<and>
         weight_less baseWeights (E_weights (adjustSourceWeights env components)) ''telegramWebApp'' \<and>
         weight_less baseWeights (E_weights (adjustSourceWeights env components)) ''webView'' \<and>
         weight_less baseWeights (E_weights (adjustSourceWeights env components)) ''behavioral''"
  using target_lookups [OF assms, of components]
  by (simp add: weight_less_def baseWeights_def)

theorem target_weights_shift_witness:
  "detectTelegramEnvironment bridgeOnly \<and>
   weight_less (E_weights (adjustSourceWeights bridgeOnly bridgeBag)) baseWeights ''canvas'' \<and>
   weight_less (E_weights (adjustSourceWeights bridgeOnly bridgeBag)) baseWeights ''audio'' \<and>
   weight_less baseWeights (E_weights (adjustSourceWeights bridgeOnly bridgeBag)) ''telegramWebApp'' \<and>
   weight_less baseWeights (E_weights (adjustSourceWeights bridgeOnly bridgeBag)) ''webView'' \<and>
   weight_less baseWeights (E_weights (adjustSourceWeights bridgeOnly bridgeBag)) ''behavioral''"
proof -
  have t: "detectTelegramEnvironment bridgeOnly"
    by (simp add: detectTelegramEnvironment_def bridgeOnly_def)
  show ?thesis using t target_weights_shift [OF t, of bridgeBag] by simp
qed

section \<open>Properties of the weighted digest\<close>











text \<open>The hash on three strings, the last with a negative 32-bit value.\<close>

lemma simpleHash_examples:
  "simpleHash [] = ''0''" "simpleHash ''abc'' = ''17862''" "simpleHash ''zzzzzzzz'' = ''71d8a300''"
  unfolding simpleHash_def by (simp_all add: hex_digit_def)

text \<open>
  C1. The digest is a function of the entries of the bag in their order and of the
  environment, and of the environment it reads the classification only: it reads no clock,
  no random number and no state that a call could change. Two calls on the same bag in the
  same environment, or in two environments with the same classification, return the same
  string.
\<close>

theorem digest_deterministic:
  "detectTelegramEnvironment env1 = detectTelegramEnvironment env2 \<Longrightarrow>
   generateTelegramSpecificFingerprint fmt env1 components =
   generateTelegramSpecificFingerprint fmt env2 components"
  by (simp add: generateTelegramSpecificFingerprint_def weightedInputsOf_def
      adjustSourceWeights_def Let_def)

theorem digest_deterministic_witness:
  "detectTelegramEnvironment telegramAndroid = detectTelegramEnvironment bridgeOnly \<and>
   generateTelegramSpecificFingerprint integralDigits telegramAndroid bridgeBag =
   generateTelegramSpecificFingerprint integralDigits bridgeOnly bridgeBag"
proof -
  have t: "detectTelegramEnvironment telegramAndroid"
    by (simp add: detectTelegramEnvironment_def telegramAndroid_def regex_test_i_def
        toLowerCase_def lower_char_def Let_def)
  have b: "detectTelegramEnvironment bridgeOnly"
    by (simp add: detectTelegramEnvironment_def bridgeOnly_def)
  from t b have eq: "detectTelegramEnvironment telegramAndroid = detectTelegramEnvironment bridgeOnly"
    by simp
  from eq digest_deterministic [OF eq, of integralDigits bridgeBag] show ?thesis by blast
qed

section \<open>Properties of the behavioural collector\<close>

text \<open>
  C7. A call of \<^verbatim>\<open>getBehavioralFingerprint\<close> while a collector exists returns at once, with
  all five feature groups \<^verbatim>\<open>null\<close> and \<^verbatim>\<open>isCollecting\<close> set; it has no error result, and
  it leaves the collector, hence the touch, scroll and motion data collected so far, as it
  was.
\<close>

theorem second_request_leaves_window:
  "behavioralCollector = Some c \<Longrightarrow>
   (\<exists>fp. step behavioralCollector Call_getBehavioralFingerprint = (Some c, Some fp) \<and>
      touchPatterns fp = None \<and> scrollBehavior fp = None \<and> timingFingerprint fp = None \<and>
      interactionRhythm fp = None \<and> motionSignature fp = None \<and> isCollecting fp)"
  by (simp add: getBehavioralFingerprint_def alreadyCollecting_def)

theorem second_request_leaves_window_witness:
  "run None [Call_getBehavioralFingerprint, Dispatch (Scroll 1000 120 0)] = Some oneScrollWindow \<and>
   (\<exists>fp. step (Some oneScrollWindow) Call_getBehavioralFingerprint = (Some oneScrollWindow, Some fp) \<and>
      touchPatterns fp = None \<and> scrollBehavior fp = None \<and> timingFingerprint fp = None \<and>
      interactionRhythm fp = None \<and> motionSignature fp = None \<and> isCollecting fp)"
proof -
  have r: "run None [Call_getBehavioralFingerprint, Dispatch (Scroll 1000 120 0)] = Some oneScrollWindow"
    by (simp add: getBehavioralFingerprint_def start_def setupEventListeners_def
        new_BehavioralCollector_def scrollHandler_def oneScrollWindow_def)
  have s: "Some oneScrollWindow = Some oneScrollWindow" by simp
  from r second_request_leaves_window [OF s] show ?thesis by blast
qed

text \<open>
  The listeners are registered for three event types only, so every event in the touch
  data of a collector that the module ever holds has one of these types.
\<close>

lemma dispatch_listened:
  "list_all (\<lambda>e. type e \<in> set touchListenerTypes) (touchData c) \<Longrightarrow>
   list_all (\<lambda>e. type e \<in> set touchListenerTypes) (touchData (dispatch c ev))"
  by (cases ev) (auto simp: touchHandler_def scrollHandler_def motionHandler_def split: option.splits)

lemma step_listened: "listened s \<Longrightarrow> listened (fst (step s x))"
proof (cases x)
  case Call_getBehavioralFingerprint
  assume "listened s"
  then show ?thesis using Call_getBehavioralFingerprint
    by (auto simp: listened_def getBehavioralFingerprint_def start_def setupEventListeners_def
        new_BehavioralCollector_def split: option.splits)
next
  case (Dispatch ev)
  assume "listened s"
  then show ?thesis using Dispatch dispatch_listened
    by (cases s) (auto simp: listened_def)
next
  case (TimerExpires b d)
  then show ?thesis by (auto simp: listened_def timerExpires_def split: option.splits)
qed

lemma run_listened: "listened s \<Longrightarrow> listened (run s xs)"
  by (induction xs arbitrary: s) (auto simp: step_listened)

lemma sequence_of_listened:
  assumes "list_all (\<lambda>e. type e \<in> set touchListenerTypes) evs"
  shows "join [] (map (\<lambda>e. charAt0 (type e)) evs) = replicate (length evs) CHR ''t''"
  using assms
proof (induction evs rule: induct_list012)
  case 1
  show ?case by simp
next
  case (2 e)
  then show ?case by (auto simp: touchListenerTypes_def charAt0_def)
next
  case (3 e e' evs)
  then show ?case by (auto simp: touchListenerTypes_def charAt0_def)
qed

lemma reachable_sequence:
  assumes "run None stimuli = Some c"
  shows "generateInteractionSequence c = replicate (length (touchData c)) CHR ''t''"
proof -
  have "listened (run None stimuli)" by (rule run_listened) (simp add: listened_def)
  with assms have "list_all (\<lambda>e. type e \<in> set touchListenerTypes) (touchData c)"
    by (simp add: listened_def)
  then show ?thesis by (simp add: generateInteractionSequence_def sequence_of_listened)
qed

text \<open>
  C10. For the window of any collection (any sequence of calls, dispatched events and timer
  expiries from the initial state of the module), the \<^verbatim>\<open>interactionSequence\<close> of the
  interaction rhythm that the timer expiry emits is the character \<^verbatim>\<open>t\<close> repeated once per
  collected touch event.
\<close>

theorem interaction_sequence_only_t:
  assumes "run None stimuli = Some c"
    and "step (Some c) (TimerExpires bounceRandom delayRandom) = (s', Some fp)"
    and "interactionRhythm fp = Some r"
  shows "interactionSequence r = replicate (length (touchData c)) CHR ''t'' \<and>
         set (interactionSequence r) \<subseteq> {CHR ''t''} \<and>
         length (interactionSequence r) = length (touchData c)"
proof -
  from assms(2) have fp: "fp = generateFingerprint (stop c) bounceRandom delayRandom"
    by (simp add: timerExpires_def)
  with assms(3) have "interactionSequence r = generateInteractionSequence (stop c)"
    by (auto simp: generateFingerprint_def analyzeInteractionRhythm_def Let_def split: if_splits)
  also have "\<dots> = generateInteractionSequence c"
    by (simp add: generateInteractionSequence_def stop_def)
  finally have "interactionSequence r = replicate (length (touchData c)) CHR ''t''"
    using reachable_sequence [OF assms(1)] by simp
  then show ?thesis by (auto simp: set_replicate_conv_if)
qed

theorem interaction_sequence_only_t_witness:
  "run None tapStimuli = Some tapWindow \<and>
   step (Some tapWindow) (TimerExpires 0 0) = (None, Some (generateFingerprint (stop tapWindow) 0 0)) \<and>
   (\<exists>r. interactionRhythm (generateFingerprint (stop tapWindow) 0 0) = Some r \<and>
        interactionSequence r = ''tt'')"
proof -
  have run: "run None tapStimuli = Some tapWindow"
    by (simp add: tapStimuli_def tapWindow_def getBehavioralFingerprint_def start_def
      setupEventListeners_def new_BehavioralCollector_def touchHandler_def touchListenerTypes_def)
  have st: "step (Some tapWindow) (TimerExpires 0 0) = (None, Some (generateFingerprint (stop tapWindow) 0 0))"
    by (simp add: timerExpires_def)
  obtain r where r: "interactionRhythm (generateFingerprint (stop tapWindow) 0 0) = Some r"
    by (simp add: generateFingerprint_def analyzeInteractionRhythm_def Let_def stop_def tapWindow_def)
  have "interactionSequence r = replicate (length (touchData tapWindow)) CHR ''t''"
    using interaction_sequence_only_t [OF run st r] by blast
  then have "interactionSequence r = ''tt''" by (simp add: tapWindow_def)
  with run st r show ?thesis by blast
qed

lemma groups_null_iff:
  "(touchPatterns (generateFingerprint c b d) = None \<longleftrightarrow> concat (map touches (touchData c)) = []) \<and>
   (scrollBehavior (generateFingerprint c b d) = None \<longleftrightarrow> length (scrollData c) < 2) \<and>
   (timingFingerprint (generateFingerprint c b d) = None \<longleftrightarrow> touchData c = []) \<and>
   (interactionRhythm (generateFingerprint c b d) = None \<longleftrightarrow> touchData c = []) \<and>
   (motionSignature (generateFingerprint c b d) = None \<longleftrightarrow> motionData c = [])"
  by (auto simp: generateFingerprint_def analyzeTouchPatterns_def analyzeScrollBehavior_def
      analyzeTimingPatterns_def analyzeInteractionRhythm_def analyzeMotionSignature_def Let_def
      split: prod.splits)

text \<open>
  C8, as the code has it. For every window and both random draws: \<^verbatim>\<open>touchPatterns\<close> is
  \<^verbatim>\<open>null\<close> exactly when the collected touch events carry no touch point, \<^verbatim>\<open>scrollBehavior\<close>
  exactly when fewer than two scroll samples were collected, \<^verbatim>\<open>timingFingerprint\<close> and
  \<^verbatim>\<open>interactionRhythm\<close> exactly when no touch event was collected, and \<^verbatim>\<open>motionSignature\<close>
  exactly when no motion sample was collected; otherwise the group is a record. In
  particular no touch event gives \<^verbatim>\<open>touchPatterns = null\<close> and no scroll sample gives
  \<^verbatim>\<open>scrollBehavior = null\<close>.
\<close>

theorem feature_groups_null_iff:
  "(touchPatterns (generateFingerprint c b d) = None \<longleftrightarrow> concat (map touches (touchData c)) = []) \<and>
   (scrollBehavior (generateFingerprint c b d) = None \<longleftrightarrow> length (scrollData c) < 2) \<and>
   (timingFingerprint (generateFingerprint c b d) = None \<longleftrightarrow> touchData c = []) \<and>
   (interactionRhythm (generateFingerprint c b d) = None \<longleftrightarrow> touchData c = []) \<and>
   (motionSignature (generateFingerprint c b d) = None \<longleftrightarrow> motionData c = []) \<and>
   (touchData c = [] \<longrightarrow> touchPatterns (generateFingerprint c b d) = None) \<and>
   (scrollData c = [] \<longrightarrow> scrollBehavior (generateFingerprint c b d) = None)"
  using groups_null_iff [of c b d] by auto

theorem feature_groups_null_iff_witness:
  "touchData (stop (start new_BehavioralCollector)) = [] \<and>
   scrollData (stop (start new_BehavioralCollector)) = [] \<and>
   touchPatterns (generateFingerprint (stop (start new_BehavioralCollector)) 0 0) = None \<and>
   scrollBehavior (generateFingerprint (stop (start new_BehavioralCollector)) 0 0) = None"
proof -
  have "touchData (stop (start new_BehavioralCollector)) = []"
    and "scrollData (stop (start new_BehavioralCollector)) = []"
    by (simp_all add: stop_def start_def setupEventListeners_def new_BehavioralCollector_def)
  then show ?thesis
    using feature_groups_null_iff [of "stop (start new_BehavioralCollector)" 0 0] by blast
qed

text \<open>
  C8, as stated, fails: a collection that saw a single scroll event has scroll data, and
  its \<^verbatim>\<open>scrollBehavior\<close> is \<^verbatim>\<open>null\<close>; a collection that saw only the lifting of a finger
  has touch data, and its \<^verbatim>\<open>touchPatterns\<close> is \<^verbatim>\<open>null\<close>.
\<close>

theorem nonempty_window_null_group:
  "run None oneScrollStimuli = Some oneScrollWindow \<and>
   scrollData (stop oneScrollWindow) \<noteq> [] \<and>
   snd (step (Some oneScrollWindow) (TimerExpires 0 0)) =
     Some (generateFingerprint (stop oneScrollWindow) 0 0) \<and>
   scrollBehavior (generateFingerprint (stop oneScrollWindow) 0 0) = None \<and>
   run None liftStimuli = Some liftWindow \<and>
   touchData (stop liftWindow) \<noteq> [] \<and>
   touchPatterns (generateFingerprint (stop liftWindow) 0 0) = None"
  by (simp add: oneScrollStimuli_def oneScrollWindow_def liftStimuli_def liftWindow_def
      getBehavioralFingerprint_def start_def stop_def setupEventListeners_def
      new_BehavioralCollector_def scrollHandler_def touchHandler_def touchListenerTypes_def
      timerExpires_def generateFingerprint_def analyzeScrollBehavior_def analyzeTouchPatterns_def)

end
